theory Spec2Isabelle
  imports Complex_Main "HOL-Library.Sublist" "HOL-Library.AList"
begin

section \<open>Pricing records and token usage\<close>

text \<open>
  The pricing engine of \<^verbatim>\<open>packages/internal/src/pricing.ts\<close>. A JavaScript
  \<^verbatim>\<open>number\<close> is modelled as an exact rational: the theorems below are about which
  branch is taken, which rate is applied to which token count and how the parts are
  added up, not about the rounding of IEEE doubles. An optional field or argument
  (\<^verbatim>\<open>undefined\<close> or \<^verbatim>\<open>null\<close>, which the source tests with \<^verbatim>\<open>!= null\<close>)
  is an \<open>option\<close>.
\<close>

type_synonym number = rat

definition DEFAULT_TIERED_THRESHOLD :: number where
  "DEFAULT_TIERED_THRESHOLD = 200000"

text \<open>One element of \<^verbatim>\<open>tiered_pricing\<close> (type \<^verbatim>\<open>TieredPricingConfig\<close>).\<close>

record TieredPricingConfig =
  tier_input_cost_per_token :: number
  tier_output_cost_per_token :: number
  tier_range :: "number \<times> number"
  tier_cache_read_input_token_cost :: "number option"

text \<open>The output type of \<^verbatim>\<open>modelPricingSchema\<close>.\<close>

record ModelPricing =
  input_cost_per_token :: "number option"
  output_cost_per_token :: "number option"
  cache_creation_input_token_cost :: "number option"
  cache_read_input_token_cost :: "number option"
  max_tokens :: "number option"
  max_input_tokens :: "number option"
  max_output_tokens :: "number option"
  input_cost_per_token_above_200k_tokens :: "number option"
  output_cost_per_token_above_200k_tokens :: "number option"
  cache_creation_input_token_cost_above_200k_tokens :: "number option"
  cache_read_input_token_cost_above_200k_tokens :: "number option"
  input_cost_per_token_above_128k_tokens :: "number option"
  output_cost_per_token_above_128k_tokens :: "number option"
  tiered_pricing :: "TieredPricingConfig list option"

text \<open>The \<^verbatim>\<open>tokens\<close> argument of the cost functions.\<close>

record TokenUsage =
  input_tokens :: number
  output_tokens :: number
  cache_creation_input_tokens :: "number option"
  cache_read_input_tokens :: "number option"

section \<open>The cost calculator\<close>

text \<open>
  \<^verbatim>\<open>calculateTieredCost(totalTokens, basePrice, tieredPrice, threshold)\<close>, the local
  function of \<^verbatim>\<open>calculateCostFromPricing\<close>. The source's callers leave
  \<^verbatim>\<open>threshold\<close> at its default.
\<close>

definition calculateTieredCost ::
  "number option \<Rightarrow> number option \<Rightarrow> number option \<Rightarrow> number \<Rightarrow> number" where
  "calculateTieredCost totalTokens basePrice tieredPrice threshold =
     (case totalTokens of
        None \<Rightarrow> 0
      | Some n \<Rightarrow>
          if n \<le> 0 then 0
          else if n > threshold \<and> tieredPrice \<noteq> None then
            (let tokensBelowThreshold = min n threshold;
                 tokensAboveThreshold = max 0 (n - threshold);
                 tieredCost = tokensAboveThreshold * the tieredPrice
             in (case basePrice of
                   Some base \<Rightarrow> tieredCost + tokensBelowThreshold * base
                 | None \<Rightarrow> tieredCost))
          else (case basePrice of
                  Some base \<Rightarrow> n * base
                | None \<Rightarrow> 0))"

text \<open>
  The tier search of \<^verbatim>\<open>calculateInputLengthTieredCost\<close>: the \<^verbatim>\<open>for\<close> loop
  with its \<^verbatim>\<open>break\<close>, started from \<^verbatim>\<open>applicableTier = tieredPricing[0]\<close>. The
  loop variable \<open>applicableTier\<close> is the tier found so far. The source's
  \<^verbatim>\<open>applicableTier == null\<close> fallback after the loop is not a branch of the model:
  the loop is reached only behind the \<^verbatim>\<open>length === 0\<close> test, so
  \<^verbatim>\<open>tieredPricing[0]\<close> is a tier and \<^verbatim>\<open>applicableTier\<close> is never null.
\<close>

fun findApplicableTier ::
  "number \<Rightarrow> TieredPricingConfig \<Rightarrow> TieredPricingConfig list \<Rightarrow> TieredPricingConfig" where
  "findApplicableTier totalInputTokens applicableTier [] = applicableTier"
| "findApplicableTier totalInputTokens applicableTier (tier # rest) =
     (case tier_range tier of
        (minRange, maxRange) \<Rightarrow>
          if totalInputTokens \<ge> minRange \<and> totalInputTokens \<le> maxRange then tier
          else findApplicableTier totalInputTokens applicableTier rest)"

text \<open>The result object of \<^verbatim>\<open>calculateInputLengthTieredCost\<close>.\<close>

record TieredResult =
  inputCost :: number
  outputCost :: number
  cacheReadCost :: number

definition calculateInputLengthTieredCost ::
  "number \<Rightarrow> number \<Rightarrow> number \<Rightarrow> number option \<Rightarrow> number option \<Rightarrow>
   TieredPricingConfig list option \<Rightarrow> TieredResult" where
  "calculateInputLengthTieredCost totalInputTokens outputTokens cacheReadTokens
       baseInputPrice baseOutputPrice tieredPricing =
     (if totalInputTokens \<le> 0 then
        \<lparr>inputCost = 0, outputCost = 0, cacheReadCost = 0\<rparr>
      else
        (case tieredPricing of
           None \<Rightarrow>
             \<lparr>inputCost = (case baseInputPrice of Some p \<Rightarrow> totalInputTokens * p | None \<Rightarrow> 0),
              outputCost = (case baseOutputPrice of Some p \<Rightarrow> outputTokens * p | None \<Rightarrow> 0),
              cacheReadCost = 0\<rparr>
         | Some [] \<Rightarrow>
             \<lparr>inputCost = (case baseInputPrice of Some p \<Rightarrow> totalInputTokens * p | None \<Rightarrow> 0),
              outputCost = (case baseOutputPrice of Some p \<Rightarrow> outputTokens * p | None \<Rightarrow> 0),
              cacheReadCost = 0\<rparr>
         | Some (first # rest) \<Rightarrow>
             (let applicableTier = findApplicableTier totalInputTokens first (first # rest)
              in \<lparr>inputCost = totalInputTokens * tier_input_cost_per_token applicableTier,
                  outputCost = outputTokens * tier_output_cost_per_token applicableTier,
                  cacheReadCost =
                    cacheReadTokens *
                      (case tier_cache_read_input_token_cost applicableTier of
                         Some c \<Rightarrow> c | None \<Rightarrow> 0)\<rparr>)))"

text \<open>
  \<^verbatim>\<open>calculateCostFromPricing\<close>. The four summands of the returned total are kept
  apart in \<open>CostParts\<close>, under the names of the source's local constants; in the
  branch for a \<^verbatim>\<open>tiered_pricing\<close> array the first two are
  \<^verbatim>\<open>tieredResult.inputCost\<close> and \<^verbatim>\<open>tieredResult.outputCost\<close>, and
  \<^verbatim>\<open>tieredResult.cacheReadCost\<close> is not read.
\<close>

record CostParts =
  part_inputCost :: number
  part_outputCost :: number
  part_cacheCreationCost :: number
  part_cacheReadCost :: number

definition hasTieredPricing :: "ModelPricing \<Rightarrow> bool" where
  "hasTieredPricing pricing = (tiered_pricing pricing \<noteq> None)"

definition costParts :: "TokenUsage \<Rightarrow> ModelPricing \<Rightarrow> CostParts" where
  "costParts tokens pricing =
     (if hasTieredPricing pricing then
        (let tieredResult =
               calculateInputLengthTieredCost
                 (input_tokens tokens)
                 (output_tokens tokens)
                 (case cache_read_input_tokens tokens of Some c \<Rightarrow> c | None \<Rightarrow> 0)
                 (input_cost_per_token pricing)
                 (output_cost_per_token pricing)
                 (tiered_pricing pricing)
         in \<lparr>part_inputCost = inputCost tieredResult,
             part_outputCost = outputCost tieredResult,
             part_cacheCreationCost =
               calculateTieredCost (cache_creation_input_tokens tokens)
                 (cache_creation_input_token_cost pricing)
                 (cache_creation_input_token_cost_above_200k_tokens pricing)
                 DEFAULT_TIERED_THRESHOLD,
             part_cacheReadCost =
               calculateTieredCost (cache_read_input_tokens tokens)
                 (cache_read_input_token_cost pricing)
                 (cache_read_input_token_cost_above_200k_tokens pricing)
                 DEFAULT_TIERED_THRESHOLD\<rparr>)
      else
        \<lparr>part_inputCost =
           calculateTieredCost (Some (input_tokens tokens))
             (input_cost_per_token pricing)
             (input_cost_per_token_above_200k_tokens pricing)
             DEFAULT_TIERED_THRESHOLD,
         part_outputCost =
           calculateTieredCost (Some (output_tokens tokens))
             (output_cost_per_token pricing)
             (output_cost_per_token_above_200k_tokens pricing)
             DEFAULT_TIERED_THRESHOLD,
         part_cacheCreationCost =
           calculateTieredCost (cache_creation_input_tokens tokens)
             (cache_creation_input_token_cost pricing)
             (cache_creation_input_token_cost_above_200k_tokens pricing)
             DEFAULT_TIERED_THRESHOLD,
         part_cacheReadCost =
           calculateTieredCost (cache_read_input_tokens tokens)
             (cache_read_input_token_cost pricing)
             (cache_read_input_token_cost_above_200k_tokens pricing)
             DEFAULT_TIERED_THRESHOLD\<rparr>)"

definition calculateCostFromPricing :: "TokenUsage \<Rightarrow> ModelPricing \<Rightarrow> number" where
  "calculateCostFromPricing tokens pricing =
     (let parts = costParts tokens pricing
      in part_inputCost parts + part_outputCost parts
         + part_cacheCreationCost parts + part_cacheReadCost parts)"


section \<open>The reference of the specification\<close>

text \<open>
  The specification's \<open>tieredCost(totalTokens, baseRate, aboveRate, threshold)\<close>,
  written from its four cases in their order.
\<close>

definition spec_tieredCost ::
  "number \<Rightarrow> number option \<Rightarrow> number option \<Rightarrow> number \<Rightarrow> number" where
  "spec_tieredCost t r r2 threshold =
     (if t \<le> 0 then 0
      else if t > threshold \<and> r2 \<noteq> None then
        min t threshold * (case r of Some b \<Rightarrow> b | None \<Rightarrow> 0)
          + max 0 (t - threshold) * the r2
      else if r \<noteq> None then t * the r
      else 0)"

text \<open>
  The specification's tier choice: the first tier in list order whose closed range
  holds the input count, else the first tier of the list.
\<close>

definition inRange :: "number \<Rightarrow> TieredPricingConfig \<Rightarrow> bool" where
  "inRange x tier = (fst (tier_range tier) \<le> x \<and> x \<le> snd (tier_range tier))"

definition spec_selectTier :: "number \<Rightarrow> TieredPricingConfig list \<Rightarrow> TieredPricingConfig" where
  "spec_selectTier x tiers =
     (case find (inRange x) tiers of Some tier \<Rightarrow> tier | None \<Rightarrow> hd tiers)"

text \<open>
  The specification's threshold-tiered mode: every token category billed by
  \<open>tieredCost\<close> with its own base and above-threshold rate; an absent count is 0.
\<close>

definition orZero :: "number option \<Rightarrow> number" where
  "orZero v = (case v of Some x \<Rightarrow> x | None \<Rightarrow> 0)"

definition spec_thresholdMode :: "TokenUsage \<Rightarrow> ModelPricing \<Rightarrow> CostParts" where
  "spec_thresholdMode tokens pricing =
     \<lparr>part_inputCost =
        spec_tieredCost (input_tokens tokens) (input_cost_per_token pricing)
          (input_cost_per_token_above_200k_tokens pricing) 200000,
      part_outputCost =
        spec_tieredCost (output_tokens tokens) (output_cost_per_token pricing)
          (output_cost_per_token_above_200k_tokens pricing) 200000,
      part_cacheCreationCost =
        spec_tieredCost (orZero (cache_creation_input_tokens tokens))
          (cache_creation_input_token_cost pricing)
          (cache_creation_input_token_cost_above_200k_tokens pricing) 200000,
      part_cacheReadCost =
        spec_tieredCost (orZero (cache_read_input_tokens tokens))
          (cache_read_input_token_cost pricing)
          (cache_read_input_token_cost_above_200k_tokens pricing) 200000\<rparr>"

section \<open>Example records\<close>

text \<open>
  The record \<^verbatim>\<open>kat-coder-pro-v1\<close> of the source's tests: three range tiers, and a
  top-level cache-read rate equal to that of the first tier only.
\<close>

definition emptyPricing :: ModelPricing where
  "emptyPricing =
     \<lparr>input_cost_per_token = None, output_cost_per_token = None,
      cache_creation_input_token_cost = None, cache_read_input_token_cost = None,
      max_tokens = None, max_input_tokens = None, max_output_tokens = None,
      input_cost_per_token_above_200k_tokens = None,
      output_cost_per_token_above_200k_tokens = None,
      cache_creation_input_token_cost_above_200k_tokens = None,
      cache_read_input_token_cost_above_200k_tokens = None,
      input_cost_per_token_above_128k_tokens = None,
      output_cost_per_token_above_128k_tokens = None,
      tiered_pricing = None\<rparr>"

definition katTier1 :: TieredPricingConfig where
  "katTier1 =
     \<lparr>tier_input_cost_per_token = 6 / 10000000, tier_output_cost_per_token = 24 / 10000000,
      tier_range = (0, 32000), tier_cache_read_input_token_cost = Some (12 / 100000000)\<rparr>"

definition katTier2 :: TieredPricingConfig where
  "katTier2 =
     \<lparr>tier_input_cost_per_token = 9 / 10000000, tier_output_cost_per_token = 36 / 10000000,
      tier_range = (32000, 128000), tier_cache_read_input_token_cost = Some (18 / 100000000)\<rparr>"

definition katTier3 :: TieredPricingConfig where
  "katTier3 =
     \<lparr>tier_input_cost_per_token = 15 / 10000000, tier_output_cost_per_token = 6 / 1000000,
      tier_range = (128000, 256000), tier_cache_read_input_token_cost = Some (3 / 10000000)\<rparr>"

definition katCoderProV1 :: ModelPricing where
  "katCoderProV1 =
     emptyPricing
       \<lparr>input_cost_per_token := Some (6 / 10000000),
        output_cost_per_token := Some (24 / 10000000),
        cache_read_input_token_cost := Some (12 / 100000000),
        tiered_pricing := Some [katTier1, katTier2, katTier3]\<rparr>"

text \<open>A record with an empty tier list and a 200k above-threshold input rate.\<close>

definition emptyTierList :: ModelPricing where
  "emptyTierList =
     emptyPricing
       \<lparr>input_cost_per_token := Some (3 / 1000000),
        input_cost_per_token_above_200k_tokens := Some (6 / 1000000),
        tiered_pricing := Some []\<rparr>"

text \<open>
  The record of the source's 200k test, which has no tier list.
\<close>

definition claudeSonnet4 :: ModelPricing where
  "claudeSonnet4 =
     emptyPricing
       \<lparr>input_cost_per_token := Some (3 / 1000000),
        input_cost_per_token_above_200k_tokens := Some (6 / 1000000)\<rparr>"

definition usage :: "number \<Rightarrow> number \<Rightarrow> number option \<Rightarrow> number option \<Rightarrow> TokenUsage" where
  "usage i out cc cr =
     \<lparr>input_tokens = i, output_tokens = out,
      cache_creation_input_tokens = cc, cache_read_input_tokens = cr\<rparr>"

section \<open>Strings\<close>

text \<open>
  Model identifiers are strings of characters. \<^verbatim>\<open>toLowerCase\<close> is modelled on the
  letters A to Z, which is what it does on ASCII identifiers; every other character is
  left as it is.
\<close>

definition lowerChar :: "char \<Rightarrow> char" where
  "lowerChar c =
     (case map_of (zip ''ABCDEFGHIJKLMNOPQRSTUVWXYZ'' ''abcdefghijklmnopqrstuvwxyz'') c of
        Some l \<Rightarrow> l
      | None \<Rightarrow> c)"

definition toLowerCase :: "string \<Rightarrow> string" where
  "toLowerCase s = map lowerChar s"

text \<open>\<^verbatim>\<open>s.includes(sub)\<close>: \<open>sub\<close> starts at some position of \<open>s\<close>.\<close>

fun stringIncludes :: "string \<Rightarrow> string \<Rightarrow> bool" where
  "stringIncludes [] sub = (sub = [])"
| "stringIncludes (c # cs) sub = (prefix sub (c # cs) \<or> stringIncludes cs sub)"

definition startsWith :: "string \<Rightarrow> string \<Rightarrow> bool" where
  "startsWith s p = prefix p s"

definition endsWith :: "string \<Rightarrow> string \<Rightarrow> bool" where
  "endsWith s p = suffix p s"

section \<open>The resolver\<close>

text \<open>
  The loaded dataset is a JavaScript \<^verbatim>\<open>Map\<close>, iterated in insertion order: a list
  of entries, with \<^verbatim>\<open>pricing.get\<close> the lookup of the key.
\<close>

type_synonym dataset = "(string \<times> ModelPricing) list"

definition DEFAULT_PROVIDER_PREFIXES :: "string list" where
  "DEFAULT_PROVIDER_PREFIXES =
     [''anthropic/'', ''claude-3-5-'', ''claude-3-'', ''claude-'', ''openai/'', ''azure/'',
      ''openrouter/openai/'', ''zai/'', ''streamlake/'']"

text \<open>\<^verbatim>\<open>candidates.add(x)\<close> on a \<^verbatim>\<open>Set\<close> kept in insertion order.\<close>

definition setAdd :: "string list \<Rightarrow> string \<Rightarrow> string list" where
  "setAdd candidates x = (if x \<in> set candidates then candidates else candidates @ [x])"

definition createMatchingCandidates :: "string list \<Rightarrow> string \<Rightarrow> string list" where
  "createMatchingCandidates providerPrefixes modelName =
     fold (\<lambda>prefix candidates. setAdd candidates (prefix @ modelName))
       providerPrefixes (setAdd [] modelName)"

text \<open>The first loop of \<^verbatim>\<open>getModelPricing\<close>: exact lookup of each candidate.\<close>

fun directMatch :: "dataset \<Rightarrow> string list \<Rightarrow> ModelPricing option" where
  "directMatch pricing [] = None"
| "directMatch pricing (candidate # rest) =
     (case map_of pricing candidate of
        Some direct \<Rightarrow> Some direct
      | None \<Rightarrow> directMatch pricing rest)"

text \<open>The second loop: the first key equal to the query or ending with \<open>/query\<close>.\<close>

fun suffixMatch :: "string \<Rightarrow> dataset \<Rightarrow> ModelPricing option" where
  "suffixMatch lower [] = None"
| "suffixMatch lower ((key, val) # rest) =
     (let comparison = toLowerCase key
      in if comparison = lower \<or> endsWith comparison (''/'' @ lower) then Some val
         else suffixMatch lower rest)"

text \<open>The score of one key in the third loop, with the source's nesting.\<close>

definition matchScore :: "string \<Rightarrow> string \<Rightarrow> nat" where
  "matchScore lower comparison =
     (if stringIncludes comparison lower then
        (if stringIncludes comparison (lower @ ''/'') \<or> endsWith comparison (''/'' @ lower)
         then 100
         else if stringIncludes comparison lower \<and> \<not> stringIncludes comparison ''air'' then
           (if startsWith comparison ''zai/'' then 95 else 90)
         else if stringIncludes comparison lower then 50
         else 0)
      else if stringIncludes lower comparison then 10
      else 0)"

text \<open>
  The third loop, on the state \<open>(bestMatch, bestMatchScore)\<close>, which starts as
  \<open>(null, 0)\<close>.
\<close>

fun fuzzyMatch ::
  "string \<Rightarrow> dataset \<Rightarrow> ModelPricing option \<times> nat \<Rightarrow> ModelPricing option \<times> nat" where
  "fuzzyMatch lower [] best = best"
| "fuzzyMatch lower ((key, val) # rest) (bestMatch, bestMatchScore) =
     (let score = matchScore lower (toLowerCase key)
      in if score > bestMatchScore then fuzzyMatch lower rest (Some val, score)
         else fuzzyMatch lower rest (bestMatch, bestMatchScore))"

text \<open>
  The function that \<^verbatim>\<open>getModelPricing\<close> maps over the loaded dataset: the three
  loops in their order, \<open>None\<close> for \<^verbatim>\<open>null\<close>.
\<close>

definition resolvePricing :: "string list \<Rightarrow> dataset \<Rightarrow> string \<Rightarrow> ModelPricing option" where
  "resolvePricing providerPrefixes pricing modelName =
     (case directMatch pricing (createMatchingCandidates providerPrefixes modelName) of
        Some direct \<Rightarrow> Some direct
      | None \<Rightarrow>
          (let lower = toLowerCase modelName
           in case suffixMatch lower pricing of
                Some val \<Rightarrow> Some val
              | None \<Rightarrow> fst (fuzzyMatch lower pricing (None, 0))))"

section \<open>The engine\<close>

text \<open>
  The two errors of the class: \<^verbatim>\<open>Failed to load pricing data\<close> and
  \<^verbatim>\<open>Model pricing not found for\<close> a model name. A \<^verbatim>\<open>Result\<close> is a sum with
  the error on the left.
\<close>

datatype error = LoadFailed | PricingNotFound string

text \<open>
  The fields of a \<^verbatim>\<open>PricingFetcher\<close> that change or are read. The outcome of the
  call \<^verbatim>\<open>await this.offlineLoader()\<close> is an argument of the methods: \<open>None\<close> when
  the loader throws or rejects, else the entries of the record it resolves to.
\<close>

record PricingFetcher =
  cachedPricing :: "dataset option"
  providerPrefixes :: "string list"

definition clearCache :: "PricingFetcher \<Rightarrow> PricingFetcher" where
  "clearCache fetcher = fetcher\<lparr>cachedPricing := None\<rparr>"

definition ensurePricingLoaded ::
  "dataset option \<Rightarrow> PricingFetcher \<Rightarrow> (error + dataset) \<times> PricingFetcher" where
  "ensurePricingLoaded loaded fetcher =
     (case cachedPricing fetcher of
        Some pricing \<Rightarrow> (Inr pricing, fetcher)
      | None \<Rightarrow>
          (case loaded of
             None \<Rightarrow> (Inl LoadFailed, fetcher)
           | Some pricing \<Rightarrow> (Inr pricing, fetcher\<lparr>cachedPricing := Some pricing\<rparr>)))"

definition getModelPricing ::
  "dataset option \<Rightarrow> PricingFetcher \<Rightarrow> string \<Rightarrow>
   (error + ModelPricing option) \<times> PricingFetcher" where
  "getModelPricing loaded fetcher modelName =
     (case ensurePricingLoaded loaded fetcher of
        (Inl e, fetcher') \<Rightarrow> (Inl e, fetcher')
      | (Inr pricing, fetcher') \<Rightarrow>
          (Inr (resolvePricing (providerPrefixes fetcher') pricing modelName), fetcher'))"

definition calculateCostFromTokens ::
  "dataset option \<Rightarrow> PricingFetcher \<Rightarrow> TokenUsage \<Rightarrow> string option \<Rightarrow>
   (error + number) \<times> PricingFetcher" where
  "calculateCostFromTokens loaded fetcher tokens modelName =
     (case modelName of
        None \<Rightarrow> (Inr 0, fetcher)
      | Some name \<Rightarrow>
          if name = '''' then (Inr 0, fetcher)
          else
            (case getModelPricing loaded fetcher name of
               (Inl e, fetcher') \<Rightarrow> (Inl e, fetcher')
             | (Inr None, fetcher') \<Rightarrow> (Inl (PricingNotFound name), fetcher')
             | (Inr (Some pricing), fetcher') \<Rightarrow>
                 (Inr (calculateCostFromPricing tokens pricing), fetcher')))"

section \<open>The resolver of the specification\<close>

text \<open>The specification's score of a lower-cased key \<open>k\<close> against the query \<open>m\<close>.\<close>

definition spec_score :: "string \<Rightarrow> string \<Rightarrow> nat" where
  "spec_score m k =
     (if stringIncludes k (m @ ''/'') \<or> endsWith k (''/'' @ m) then 100
      else if stringIncludes k m \<and> \<not> stringIncludes k ''air'' \<and> startsWith k ''zai/'' then 95
      else if stringIncludes k m \<and> \<not> stringIncludes k ''air'' then 90
      else if stringIncludes k m then 50
      else if stringIncludes m k then 10
      else 0)"

definition keyScore :: "string \<Rightarrow> string \<times> ModelPricing \<Rightarrow> nat" where
  "keyScore m entry = spec_score m (toLowerCase (fst entry))"

text \<open>The maximum score over the dataset, 0 for an empty one.\<close>

definition spec_maxScore :: "string \<Rightarrow> dataset \<Rightarrow> nat" where
  "spec_maxScore m pricing = Max (set (0 # map (keyScore m) pricing))"

text \<open>
  The specification's fuzzy phase: not-found when the maximum is 0, else the record of
  the first key, in dataset order, whose score is the maximum.
\<close>

definition spec_fuzzyBest :: "string \<Rightarrow> dataset \<Rightarrow> ModelPricing option" where
  "spec_fuzzyBest m pricing =
     (if spec_maxScore m pricing = 0 then None
      else map_option snd (find (\<lambda>entry. keyScore m entry = spec_maxScore m pricing) pricing))"

text \<open>The specification's suffix phase: which keys match the query \<open>m\<close>.\<close>

definition suffixHit :: "string \<Rightarrow> string \<times> ModelPricing \<Rightarrow> bool" where
  "suffixHit m entry =
     (toLowerCase (fst entry) = m \<or> endsWith (toLowerCase (fst entry)) (''/'' @ m))"

text \<open>The maximum of a running best score \<open>s\<close> and the scores still to come.\<close>

definition topOf :: "nat \<Rightarrow> nat list \<Rightarrow> nat" where
  "topOf s xs = Max (set (s # xs))"

section \<open>Example datasets\<close>

definition tagged :: "number \<Rightarrow> ModelPricing" where
  "tagged n = emptyPricing\<lparr>max_tokens := Some n\<rparr>"

definition defaultFetcher :: PricingFetcher where
  "defaultFetcher = \<lparr>cachedPricing = None, providerPrefixes = DEFAULT_PROVIDER_PREFIXES\<rparr>"

text \<open>Keys that only the fuzzy phase can match against \<^verbatim>\<open>GLM-4.5\<close>.\<close>

definition glmVariants :: dataset where
  "glmVariants =
     [(''glm'', tagged 1),
      (''openrouter/glm-4.5-air'', tagged 2),
      (''Zai/GLM-4.5-x'', tagged 3),
      (''other/glm-4.5-pro'', tagged 4),
      (''zai/glm-4.5-y'', tagged 5)]"

definition kimiKeys :: dataset where
  "kimiKeys = [(''Moonshot/Kimi-For-Coding'', tagged 1), (''x/kimi-for-coding'', tagged 2)]"

definition gpt5Only :: dataset where
  "gpt5Only = [(''gpt-5'', tagged 1)]"

section \<open>The dataset loader\<close>

text \<open>
  \<^verbatim>\<open>loadLocalPricingDataset\<close> of \<^verbatim>\<open>packages/internal/src/pricing-fetch-utils.ts\<close>.
  A parsed JSON value; \<open>JObject\<close> lists the properties of an object in the order in
  which \<^verbatim>\<open>Object.entries\<close> enumerates them, and \<^verbatim>\<open>JSON.parse\<close> gives no key
  twice.
\<close>

datatype json =
  JNull
  | JBool bool
  | JNumber number
  | JString string
  | JArray "json list"
  | JObject "(string \<times> json) list"

text \<open>
  The validators of the schema library that \<^verbatim>\<open>modelPricingSchema\<close> is built from,
  each returning \<open>None\<close> for an issue: \<^verbatim>\<open>v.number()\<close> accepts a number;
  \<^verbatim>\<open>v.optional(s)\<close> accepts a missing key and otherwise what \<open>s\<close> accepts; a key
  that is not optional must be there; \<^verbatim>\<open>v.array(s)\<close> accepts an array whose items
  \<open>s\<close> accepts; \<^verbatim>\<open>v.tuple([a, b])\<close> accepts an array whose first two items are
  accepted by \<open>a\<close> and \<open>b\<close>, and drops further items; \<^verbatim>\<open>v.object\<close> accepts a
  value that is truthy and of type \<^verbatim>\<open>object\<close>, reads the keys of its schema and
  drops the others.
\<close>

definition isObjectType :: "json \<Rightarrow> bool" where
  "isObjectType j = (case j of JObject _ \<Rightarrow> True | JArray _ \<Rightarrow> True | _ \<Rightarrow> False)"

text \<open>
  \<^verbatim>\<open>input[key]\<close> for a key of the schema; \<open>None\<close> when the key is not in the
  value. No key of the schema is an index or \<^verbatim>\<open>length\<close>, so an array has none.
\<close>

definition getProp :: "json \<Rightarrow> string \<Rightarrow> json option" where
  "getProp j key = (case j of JObject props \<Rightarrow> map_of props key | _ \<Rightarrow> None)"

definition v_number :: "json \<Rightarrow> number option" where
  "v_number j = (case j of JNumber n \<Rightarrow> Some n | _ \<Rightarrow> None)"

definition v_optional :: "(json \<Rightarrow> 'a option) \<Rightarrow> json option \<Rightarrow> 'a option option" where
  "v_optional schema field =
     (case field of None \<Rightarrow> Some None | Some j \<Rightarrow> map_option Some (schema j))"

definition v_required :: "(json \<Rightarrow> 'a option) \<Rightarrow> json option \<Rightarrow> 'a option" where
  "v_required schema field = (case field of None \<Rightarrow> None | Some j \<Rightarrow> schema j)"

definition v_array :: "(json \<Rightarrow> 'a option) \<Rightarrow> json \<Rightarrow> 'a list option" where
  "v_array schema j = (case j of JArray items \<Rightarrow> those (map schema items) | _ \<Rightarrow> None)"

definition v_tuple2 ::
  "(json \<Rightarrow> 'a option) \<Rightarrow> (json \<Rightarrow> 'b option) \<Rightarrow> json \<Rightarrow> ('a \<times> 'b) option" where
  "v_tuple2 first second j =
     (case j of
        JArray (x # y # _) \<Rightarrow>
          (case first x of
             None \<Rightarrow> None
           | Some a \<Rightarrow> (case second y of None \<Rightarrow> None | Some b \<Rightarrow> Some (a, b)))
      | _ \<Rightarrow> None)"

text \<open>The item schema of \<^verbatim>\<open>tiered_pricing\<close>.\<close>

definition tierSchema :: "json \<Rightarrow> TieredPricingConfig option" where
  "tierSchema j =
     (if \<not> isObjectType j then None
      else
        (case v_required v_number (getProp j ''input_cost_per_token'') of
           None \<Rightarrow> None
         | Some i \<Rightarrow>
        (case v_required v_number (getProp j ''output_cost_per_token'') of
           None \<Rightarrow> None
         | Some out \<Rightarrow>
        (case v_required (v_tuple2 v_number v_number) (getProp j ''range'') of
           None \<Rightarrow> None
         | Some r \<Rightarrow>
        (case v_optional v_number (getProp j ''cache_read_input_token_cost'') of
           None \<Rightarrow> None
         | Some c \<Rightarrow>
             Some \<lparr>tier_input_cost_per_token = i, tier_output_cost_per_token = out,
                   tier_range = r, tier_cache_read_input_token_cost = c\<rparr>)))))"

text \<open>
  The thirteen optional numbers of \<^verbatim>\<open>modelPricingSchema\<close>, in the order of the
  schema: \<open>None\<close> when one of them is there and is not a number.
\<close>

definition numberKeys :: "string list" where
  "numberKeys =
     [''input_cost_per_token'', ''output_cost_per_token'',
      ''cache_creation_input_token_cost'', ''cache_read_input_token_cost'',
      ''max_tokens'', ''max_input_tokens'', ''max_output_tokens'',
      ''input_cost_per_token_above_200k_tokens'',
      ''output_cost_per_token_above_200k_tokens'',
      ''cache_creation_input_token_cost_above_200k_tokens'',
      ''cache_read_input_token_cost_above_200k_tokens'',
      ''input_cost_per_token_above_128k_tokens'',
      ''output_cost_per_token_above_128k_tokens'']"

definition optionalNumbers :: "json \<Rightarrow> number option list option" where
  "optionalNumbers j = those (map (\<lambda>key. v_optional v_number (getProp j key)) numberKeys)"

text \<open>\<^verbatim>\<open>v.safeParse(modelPricingSchema, modelData)\<close>: \<open>None\<close> when not a success.\<close>

definition safeParse :: "json \<Rightarrow> ModelPricing option" where
  "safeParse j =
     (if \<not> isObjectType j then None
      else
        (case optionalNumbers j of
           Some [a, b, c, d, e, f, g, h, i, k, l, m, n] \<Rightarrow>
             (case v_optional (v_array tierSchema) (getProp j ''tiered_pricing'') of
                None \<Rightarrow> None
              | Some tiers \<Rightarrow>
                  Some \<lparr>input_cost_per_token = a, output_cost_per_token = b,
                        cache_creation_input_token_cost = c, cache_read_input_token_cost = d,
                        max_tokens = e, max_input_tokens = f, max_output_tokens = g,
                        input_cost_per_token_above_200k_tokens = h,
                        output_cost_per_token_above_200k_tokens = i,
                        cache_creation_input_token_cost_above_200k_tokens = k,
                        cache_read_input_token_cost_above_200k_tokens = l,
                        input_cost_per_token_above_128k_tokens = m,
                        output_cost_per_token_above_128k_tokens = n,
                        tiered_pricing = tiers\<rparr>)
         | _ \<Rightarrow> None))"

text \<open>The three places where the body of the \<^verbatim>\<open>try\<close> block throws.\<close>

datatype loadFailure = FileNotFound | JsonSyntaxError | EntriesTypeError

text \<open>
  The loop over \<^verbatim>\<open>possiblePaths\<close>: \<^verbatim>\<open>readFileSync\<close> is the file system, \<open>None\<close>
  where it throws.
\<close>

fun readFirst :: "(string \<Rightarrow> string option) \<Rightarrow> string list \<Rightarrow> string option" where
  "readFirst readFileSync [] = None"
| "readFirst readFileSync (path # rest) =
     (case readFileSync path of
        Some rawData \<Rightarrow> Some rawData
      | None \<Rightarrow> readFirst readFileSync rest)"

text \<open>\<^verbatim>\<open>rawData.trim()\<close>, on the white space and line ends of ASCII.\<close>

definition isWhiteSpace :: "char \<Rightarrow> bool" where
  "isWhiteSpace c = ((of_char c :: nat) \<in> {9, 10, 11, 12, 13, 32})"

definition trim :: "string \<Rightarrow> string" where
  "trim s = rev (dropWhile isWhiteSpace (rev (dropWhile isWhiteSpace s)))"

text \<open>A decimal index as a property name.\<close>

fun digits :: "nat \<Rightarrow> string" where
  "digits n =
     (if n < 10 then [char_of (48 + n)]
      else digits (n div 10) @ [char_of (48 + n mod 10)])"

text \<open>
  \<^verbatim>\<open>Object.entries\<close> of the parsed value: it throws on \<^verbatim>\<open>null\<close>, lists the
  entries of an object, the indexed items of an array and the indexed characters of a
  string, and nothing for a number or a boolean.
\<close>

definition Object_entries :: "json \<Rightarrow> (string \<times> json) list option" where
  "Object_entries j =
     (case j of
        JNull \<Rightarrow> None
      | JObject props \<Rightarrow> Some props
      | JArray items \<Rightarrow> Some (zip (map digits [0..<length items]) items)
      | JString s \<Rightarrow> Some (zip (map digits [0..<length s]) (map (\<lambda>c. JString [c]) s))
      | _ \<Rightarrow> Some [])"

definition createPricingDataset :: dataset where
  "createPricingDataset = []"

text \<open>
  The loop over the entries, on the dataset built so far.
  \<^verbatim>\<open>dataset[modelName] = parsed.output\<close> replaces the value of a key that is there
  and adds a new key at the end.
\<close>

fun collectEntries :: "(string \<times> json) list \<Rightarrow> dataset \<Rightarrow> dataset" where
  "collectEntries [] dataset = dataset"
| "collectEntries ((modelName, modelData) # rest) dataset =
     (if \<not> isObjectType modelData then collectEntries rest dataset
      else
        (case safeParse modelData of
           None \<Rightarrow> collectEntries rest dataset
         | Some output \<Rightarrow> collectEntries rest (AList.update modelName output dataset)))"

text \<open>The body of the \<^verbatim>\<open>try\<close> block; \<^verbatim>\<open>JSON_parse\<close> is \<open>None\<close> where it throws.\<close>

definition loadBody ::
  "(string \<Rightarrow> string option) \<Rightarrow> (string \<Rightarrow> json option) \<Rightarrow> string list \<Rightarrow>
   loadFailure + dataset" where
  "loadBody readFileSync JSON_parse possiblePaths =
     (case readFirst readFileSync possiblePaths of
        None \<Rightarrow> Inl FileNotFound
      | Some rawData \<Rightarrow>
          if trim rawData = '''' then Inl FileNotFound
          else
            (case JSON_parse rawData of
               None \<Rightarrow> Inl JsonSyntaxError
             | Some jsonDataset \<Rightarrow>
                 (case Object_entries jsonDataset of
                    None \<Rightarrow> Inl EntriesTypeError
                  | Some entries \<Rightarrow> Inr (collectEntries entries createPricingDataset))))"

text \<open>The function with its \<^verbatim>\<open>catch\<close>: every failure becomes the empty dataset.\<close>

definition loadLocalPricingDataset ::
  "(string \<Rightarrow> string option) \<Rightarrow> (string \<Rightarrow> json option) \<Rightarrow> string list \<Rightarrow> dataset" where
  "loadLocalPricingDataset readFileSync JSON_parse possiblePaths =
     (case loadBody readFileSync JSON_parse possiblePaths of
        Inl failure \<Rightarrow> createPricingDataset
      | Inr dataset \<Rightarrow> dataset)"

text \<open>
  The specification's loader on the entries of the source: an entry is kept, with its
  validated record, when its value is an object that passes validation.
\<close>

definition spec_keepEntry :: "string \<times> json \<Rightarrow> (string \<times> ModelPricing) option" where
  "spec_keepEntry entry =
     (if isObjectType (snd entry) then map_option (Pair (fst entry)) (safeParse (snd entry))
      else None)"

text \<open>
  A source with a well-formed entry, an entry whose numeric fields are a string and a
  boolean, and an entry that is not an object; and a file system holding it at the
  second path only.
\<close>

definition sampleSource :: json where
  "sampleSource =
     JObject
       [(''good-model'',
           JObject [(''input_cost_per_token'', JNumber (1 / 1000000)),
                    (''output_cost_per_token'', JNumber (2 / 1000000)),
                    (''litellm_provider'', JString ''openai'')]),
        (''bad-model'',
           JObject [(''input_cost_per_token'', JString ''free''),
                    (''output_cost_per_token'', JBool True)]),
        (''comment'', JString ''not a record'')]"

definition samplePaths :: "string list" where
  "samplePaths = [''dist/model_prices_and_context_window.json'',
                  ''cwd/model_prices_and_context_window.json'']"

definition sampleFiles :: "string \<Rightarrow> string option" where
  "sampleFiles path =
     (if path = ''cwd/model_prices_and_context_window.json'' then Some ''pricing source''
      else None)"

definition sampleParse :: "string \<Rightarrow> json option" where
  "sampleParse rawData = (if rawData = ''pricing source'' then Some sampleSource else None)"

definition goodModel :: ModelPricing where
  "goodModel =
     emptyPricing
       \<lparr>input_cost_per_token := Some (1 / 1000000),
        output_cost_per_token := Some (2 / 1000000)\<rparr>"

section \<open>Calls that overlap\<close>

text \<open>
  JavaScript runs one piece of code at a time, and an \<^verbatim>\<open>async\<close> method runs without
  interruption up to its \<^verbatim>\<open>await\<close>. The only \<^verbatim>\<open>await\<close> of the class is
  \<^verbatim>\<open>await this.offlineLoader()\<close> in \<^verbatim>\<open>ensurePricingLoaded\<close>, through which
  \<^verbatim>\<open>fetchModelPricing\<close>, \<^verbatim>\<open>getModelPricing\<close> and \<^verbatim>\<open>calculateCostFromTokens\<close>
  all go. So the life of an engine is a sequence of two kinds of steps:
  \<^item> \<open>Enter\<close>: a caller enters \<^verbatim>\<open>ensurePricingLoaded\<close>. With a cached dataset it
    returns it at once. Without one it invokes the loader and waits for its promise.
  \<^item> \<open>Resolve d\<close> and \<open>Reject\<close>: the promise of one waiting caller is settled. On
    \<open>Resolve d\<close> the caller stores \<open>d\<close> in \<^verbatim>\<open>cachedPricing\<close> and returns it; on
    \<open>Reject\<close> it returns the load error.
  The state counts the loader invocations and the loads in flight, and lists the
  datasets handed to callers.
\<close>

record AsyncFetcher = PricingFetcher +
  inFlight :: nat
  loaderInvocations :: nat
  delivered :: "dataset list"

datatype event = Enter | Resolve dataset | Reject

fun step :: "AsyncFetcher \<Rightarrow> event \<Rightarrow> AsyncFetcher" where
  "step s Enter =
     (case cachedPricing s of
        Some pricing \<Rightarrow> s\<lparr>delivered := delivered s @ [pricing]\<rparr>
      | None \<Rightarrow> s\<lparr>inFlight := inFlight s + 1, loaderInvocations := loaderInvocations s + 1\<rparr>)"
| "step s (Resolve pricing) =
     (if inFlight s = 0 then s
      else s\<lparr>cachedPricing := Some pricing, inFlight := inFlight s - 1,
             delivered := delivered s @ [pricing]\<rparr>)"
| "step s Reject = (if inFlight s = 0 then s else s\<lparr>inFlight := inFlight s - 1\<rparr>)"



section \<open>Properties of the cost calculator\<close>

lemma calculateTieredCost_Some:
  "calculateTieredCost (Some t) r r2 threshold = spec_tieredCost t r r2 threshold"
  by (cases r; cases r2) (simp_all add: calculateTieredCost_def spec_tieredCost_def Let_def)

lemma calculateTieredCost_opt:
  "calculateTieredCost t r r2 threshold = spec_tieredCost (orZero t) r r2 threshold"
proof (cases t)
  case None
  then show ?thesis by (simp add: calculateTieredCost_def spec_tieredCost_def orZero_def)
next
  case (Some n)
  then show ?thesis by (simp add: calculateTieredCost_Some orZero_def)
qed

text \<open>
  C3. For every token count \<open>t\<close>, optional base rate \<open>r\<close>, optional above-threshold
  rate \<open>r2\<close> and threshold, \<open>calculateTieredCost\<close> is the specification's piecewise
  \<open>tieredCost\<close>. At the default threshold, a count of exactly 200000 is billed at the
  base rate only, and 200001 tokens are billed as 200000 at the base rate plus one
  token at the above-threshold rate.
\<close>

theorem calculateTieredCost_refines_spec:
  "calculateTieredCost (Some t) r r2 threshold = spec_tieredCost t r r2 threshold
   \<and> calculateTieredCost (Some DEFAULT_TIERED_THRESHOLD) (Some b) r2 DEFAULT_TIERED_THRESHOLD
       = DEFAULT_TIERED_THRESHOLD * b
   \<and> calculateTieredCost (Some (DEFAULT_TIERED_THRESHOLD + 1)) (Some b) (Some a)
         DEFAULT_TIERED_THRESHOLD
       = DEFAULT_TIERED_THRESHOLD * b + 1 * a"
proof (intro conjI)
  show "calculateTieredCost (Some t) r r2 threshold = spec_tieredCost t r r2 threshold"
    by (rule calculateTieredCost_Some)
  show "calculateTieredCost (Some DEFAULT_TIERED_THRESHOLD) (Some b) r2 DEFAULT_TIERED_THRESHOLD
          = DEFAULT_TIERED_THRESHOLD * b"
    by (simp add: calculateTieredCost_def DEFAULT_TIERED_THRESHOLD_def)
  show "calculateTieredCost (Some (DEFAULT_TIERED_THRESHOLD + 1)) (Some b) (Some a)
          DEFAULT_TIERED_THRESHOLD
        = DEFAULT_TIERED_THRESHOLD * b + 1 * a"
    by (simp add: calculateTieredCost_def DEFAULT_TIERED_THRESHOLD_def Let_def)
qed

lemma findApplicableTier_find:
  "findApplicableTier x d tiers =
     (case find (inRange x) tiers of Some tier \<Rightarrow> tier | None \<Rightarrow> d)"
  by (induction tiers) (auto simp: inRange_def split: prod.splits)

lemma tiered_result_nonempty:
  assumes "tiers \<noteq> []" and "0 < x"
  shows "calculateInputLengthTieredCost x out cr bi bo (Some tiers) =
           \<lparr>inputCost = x * tier_input_cost_per_token (spec_selectTier x tiers),
            outputCost = out * tier_output_cost_per_token (spec_selectTier x tiers),
            cacheReadCost =
              cr * orZero (tier_cache_read_input_token_cost (spec_selectTier x tiers))\<rparr>"
proof -
  from assms(1) obtain first rest where tiers: "tiers = first # rest"
    by (cases tiers) auto
  have sel: "findApplicableTier x first (first # rest) = spec_selectTier x tiers"
    unfolding findApplicableTier_find spec_selectTier_def tiers
    by (simp split: option.split)
  show ?thesis
    using assms(2) sel
    by (simp add: calculateInputLengthTieredCost_def tiers Let_def orZero_def
             del: findApplicableTier.simps)
qed

text \<open>
  C6 as stated fails for an input count of 0, which the inclusive range [0, 32000] of
  the first tier holds: \<^verbatim>\<open>calculateInputLengthTieredCost\<close> returns three zeros for
  \<^verbatim>\<open>totalInputTokens <= 0\<close> before it looks for a tier, so no tier is selected and
  5000 output and 2000 cache-read tokens are billed 0, where the rates of the first
  tier give 0.012 and 0.00024.
\<close>

theorem zero_input_selects_no_tier:
  "inRange 0 katTier1
   \<and> spec_selectTier 0 [katTier1, katTier2, katTier3] = katTier1
   \<and> 5000 * tier_output_cost_per_token katTier1 = 12 / 1000
   \<and> 2000 * orZero (tier_cache_read_input_token_cost katTier1) = 24 / 100000
   \<and> calculateInputLengthTieredCost 0 5000 2000 (Some (6 / 10000000)) (Some (24 / 10000000))
        (Some [katTier1, katTier2, katTier3])
       = \<lparr>inputCost = 0, outputCost = 0, cacheReadCost = 0\<rparr>"
proof -
  have range: "inRange 0 katTier1"
    by (simp add: inRange_def katTier1_def)
  then have sel: "spec_selectTier 0 [katTier1, katTier2, katTier3] = katTier1"
    by (simp add: spec_selectTier_def)
  have rates: "5000 * tier_output_cost_per_token katTier1 = 12 / 1000"
    "2000 * orZero (tier_cache_read_input_token_cost katTier1) = 24 / 100000"
    by (simp_all add: katTier1_def orZero_def)
  have zeros:
    "calculateInputLengthTieredCost 0 5000 2000 (Some (6 / 10000000)) (Some (24 / 10000000))
        (Some [katTier1, katTier2, katTier3])
       = \<lparr>inputCost = 0, outputCost = 0, cacheReadCost = 0\<rparr>"
    by (simp add: calculateInputLengthTieredCost_def)
  from range sel rates zeros show ?thesis
    by blast
qed

text \<open>
  C6 as amended. In range-tiered mode with a positive input count (a non-empty tier
  list and \<^verbatim>\<open>totalInputTokens > 0\<close>) the rates applied are those of the first tier
  in list order whose range \<open>[min, max]\<close> holds the input count, both bounds
  inclusive, and those of the first tier of the list when no range holds it. With the
  ranges [0, 32000], [32000, 128000] and [128000, 256000], 32000 input tokens select
  the first tier and 32001 the second.
\<close>

theorem range_tier_selection:
  "(tiers \<noteq> [] \<and> 0 < x \<longrightarrow>
      calculateInputLengthTieredCost x out cr bi bo (Some tiers) =
        \<lparr>inputCost = x * tier_input_cost_per_token (spec_selectTier x tiers),
         outputCost = out * tier_output_cost_per_token (spec_selectTier x tiers),
         cacheReadCost =
           cr * orZero (tier_cache_read_input_token_cost (spec_selectTier x tiers))\<rparr>)
   \<and> findApplicableTier 32000 katTier1 [katTier1, katTier2, katTier3] = katTier1
   \<and> findApplicableTier 32001 katTier1 [katTier1, katTier2, katTier3] = katTier2"
proof (intro conjI impI)
  assume "tiers \<noteq> [] \<and> 0 < x"
  then show "calculateInputLengthTieredCost x out cr bi bo (Some tiers) =
        \<lparr>inputCost = x * tier_input_cost_per_token (spec_selectTier x tiers),
         outputCost = out * tier_output_cost_per_token (spec_selectTier x tiers),
         cacheReadCost =
           cr * orZero (tier_cache_read_input_token_cost (spec_selectTier x tiers))\<rparr>"
    by (simp add: tiered_result_nonempty)
next
  show "findApplicableTier 32000 katTier1 [katTier1, katTier2, katTier3] = katTier1"
    by (simp add: katTier1_def)
next
  show "findApplicableTier 32001 katTier1 [katTier1, katTier2, katTier3] = katTier2"
    by (simp add: katTier1_def katTier2_def)
qed

theorem range_tier_selection_witness:
  "([katTier1, katTier2, katTier3] \<noteq> [] \<and> (0::number) < 32001)
   \<and> calculateInputLengthTieredCost 32001 0 0 None None (Some [katTier1, katTier2, katTier3])
       = \<lparr>inputCost = 288009 / 10000000, outputCost = 0, cacheReadCost = 0\<rparr>
   \<and> spec_selectTier 32001 [katTier1, katTier2, katTier3] = katTier2
   \<and> spec_selectTier 300000 [katTier1, katTier2, katTier3] = katTier1"
proof -
  have sel: "spec_selectTier 32001 [katTier1, katTier2, katTier3] = katTier2"
    by (simp add: spec_selectTier_def inRange_def katTier1_def katTier2_def)
  have fallback: "spec_selectTier 300000 [katTier1, katTier2, katTier3] = katTier1"
    by (simp add: spec_selectTier_def inRange_def katTier1_def katTier2_def katTier3_def)
  have hyp: "[katTier1, katTier2, katTier3] \<noteq> [] \<and> (0::number) < 32001"
    by simp
  from range_tier_selection [of "[katTier1, katTier2, katTier3]" 32001 0 0 None None] hyp
  have "calculateInputLengthTieredCost 32001 0 0 None None (Some [katTier1, katTier2, katTier3])
          = \<lparr>inputCost = 32001 * tier_input_cost_per_token katTier2, outputCost = 0,
             cacheReadCost = 0\<rparr>"
    by (simp add: sel)
  then show ?thesis
    using sel fallback by (simp add: katTier2_def)
qed

lemma costParts_absent:
  assumes "tiered_pricing pricing = None"
  shows "costParts tokens pricing = spec_thresholdMode tokens pricing"
  using assms
  by (simp add: costParts_def hasTieredPricing_def spec_thresholdMode_def
        calculateTieredCost_opt orZero_def DEFAULT_TIERED_THRESHOLD_def)

lemma costParts_present:
  assumes "tiered_pricing pricing = Some tiers"
  shows "costParts tokens pricing =
           \<lparr>part_inputCost =
              inputCost (calculateInputLengthTieredCost (input_tokens tokens)
                (output_tokens tokens) (orZero (cache_read_input_tokens tokens))
                (input_cost_per_token pricing) (output_cost_per_token pricing) (Some tiers)),
            part_outputCost =
              outputCost (calculateInputLengthTieredCost (input_tokens tokens)
                (output_tokens tokens) (orZero (cache_read_input_tokens tokens))
                (input_cost_per_token pricing) (output_cost_per_token pricing) (Some tiers)),
            part_cacheCreationCost =
              part_cacheCreationCost (spec_thresholdMode tokens pricing),
            part_cacheReadCost =
              part_cacheReadCost (spec_thresholdMode tokens pricing)\<rparr>"
  using assms
  by (simp add: costParts_def hasTieredPricing_def spec_thresholdMode_def Let_def
        calculateTieredCost_opt orZero_def DEFAULT_TIERED_THRESHOLD_def)

lemma tiered_result_empty:
  assumes "0 < x"
  shows "calculateInputLengthTieredCost x out cr bi bo (Some []) =
           \<lparr>inputCost = x * orZero bi, outputCost = out * orZero bo, cacheReadCost = 0\<rparr>"
  using assms
  by (simp add: calculateInputLengthTieredCost_def orZero_def split: option.split)

lemma tiered_result_nonpositive:
  assumes "x \<le> 0"
  shows "calculateInputLengthTieredCost x out cr bi bo tiers =
           \<lparr>inputCost = 0, outputCost = 0, cacheReadCost = 0\<rparr>"
  using assms by (simp add: calculateInputLengthTieredCost_def)

text \<open>
  C10. For a pricing record whose \<^verbatim>\<open>tiered_pricing\<close> is an array and a usage with
  \<^verbatim>\<open>input_tokens \<le> 0\<close>, the input and the output parts of the cost are both 0,
  whatever the output count, and the total is the sum of the threshold-tiered
  cache-creation and cache-read costs at the record's top-level rates.
\<close>

theorem nonpositive_input_zeroes_input_and_output:
  "tiered_pricing pricing = Some tiers \<and> input_tokens tokens \<le> 0 \<longrightarrow>
     part_inputCost (costParts tokens pricing) = 0
     \<and> part_outputCost (costParts tokens pricing) = 0
     \<and> calculateCostFromPricing tokens pricing =
         calculateTieredCost (cache_creation_input_tokens tokens)
           (cache_creation_input_token_cost pricing)
           (cache_creation_input_token_cost_above_200k_tokens pricing)
           DEFAULT_TIERED_THRESHOLD
         + calculateTieredCost (cache_read_input_tokens tokens)
           (cache_read_input_token_cost pricing)
           (cache_read_input_token_cost_above_200k_tokens pricing)
           DEFAULT_TIERED_THRESHOLD"
proof (intro impI)
  assume h: "tiered_pricing pricing = Some tiers \<and> input_tokens tokens \<le> 0"
  then have zero:
    "calculateInputLengthTieredCost (input_tokens tokens) (output_tokens tokens)
       (case cache_read_input_tokens tokens of Some c \<Rightarrow> c | None \<Rightarrow> 0)
       (input_cost_per_token pricing) (output_cost_per_token pricing) (Some tiers)
     = \<lparr>inputCost = 0, outputCost = 0, cacheReadCost = 0\<rparr>"
    by (simp add: tiered_result_nonpositive)
  from h have parts:
    "costParts tokens pricing =
       \<lparr>part_inputCost = 0, part_outputCost = 0,
        part_cacheCreationCost =
          calculateTieredCost (cache_creation_input_tokens tokens)
            (cache_creation_input_token_cost pricing)
            (cache_creation_input_token_cost_above_200k_tokens pricing)
            DEFAULT_TIERED_THRESHOLD,
        part_cacheReadCost =
          calculateTieredCost (cache_read_input_tokens tokens)
            (cache_read_input_token_cost pricing)
            (cache_read_input_token_cost_above_200k_tokens pricing)
            DEFAULT_TIERED_THRESHOLD\<rparr>"
    by (simp add: costParts_def hasTieredPricing_def zero Let_def)
  show "part_inputCost (costParts tokens pricing) = 0
     \<and> part_outputCost (costParts tokens pricing) = 0
     \<and> calculateCostFromPricing tokens pricing =
         calculateTieredCost (cache_creation_input_tokens tokens)
           (cache_creation_input_token_cost pricing)
           (cache_creation_input_token_cost_above_200k_tokens pricing)
           DEFAULT_TIERED_THRESHOLD
         + calculateTieredCost (cache_read_input_tokens tokens)
           (cache_read_input_token_cost pricing)
           (cache_read_input_token_cost_above_200k_tokens pricing)
           DEFAULT_TIERED_THRESHOLD"
    by (simp add: calculateCostFromPricing_def parts Let_def)
qed

lemma katCoderProV1_fields:
  "tiered_pricing katCoderProV1 = Some [katTier1, katTier2, katTier3]"
  "input_cost_per_token katCoderProV1 = Some (6 / 10000000)"
  "output_cost_per_token katCoderProV1 = Some (24 / 10000000)"
  "cache_creation_input_token_cost katCoderProV1 = None"
  "cache_creation_input_token_cost_above_200k_tokens katCoderProV1 = None"
  "cache_read_input_token_cost katCoderProV1 = Some (12 / 100000000)"
  "cache_read_input_token_cost_above_200k_tokens katCoderProV1 = None"
  by (simp_all add: katCoderProV1_def emptyPricing_def)

theorem nonpositive_input_zeroes_input_and_output_witness:
  "(tiered_pricing katCoderProV1 = Some [katTier1, katTier2, katTier3]
      \<and> input_tokens (usage 0 5000 None (Some 2000)) \<le> 0)
   \<and> 0 < output_tokens (usage 0 5000 None (Some 2000))
   \<and> part_outputCost (costParts (usage 0 5000 None (Some 2000)) katCoderProV1) = 0
   \<and> calculateCostFromPricing (usage 0 5000 None (Some 2000)) katCoderProV1 = 3 / 12500"
proof -
  have hyp: "tiered_pricing katCoderProV1 = Some [katTier1, katTier2, katTier3]
      \<and> input_tokens (usage 0 5000 None (Some 2000)) \<le> 0"
    by (simp add: katCoderProV1_fields usage_def)
  from nonpositive_input_zeroes_input_and_output
         [of katCoderProV1 "[katTier1, katTier2, katTier3]" "usage 0 5000 None (Some 2000)"] hyp
  have "part_outputCost (costParts (usage 0 5000 None (Some 2000)) katCoderProV1) = 0
     \<and> calculateCostFromPricing (usage 0 5000 None (Some 2000)) katCoderProV1 =
         calculateTieredCost (cache_creation_input_tokens (usage 0 5000 None (Some 2000)))
           (cache_creation_input_token_cost katCoderProV1)
           (cache_creation_input_token_cost_above_200k_tokens katCoderProV1)
           DEFAULT_TIERED_THRESHOLD
         + calculateTieredCost (cache_read_input_tokens (usage 0 5000 None (Some 2000)))
           (cache_read_input_token_cost katCoderProV1)
           (cache_read_input_token_cost_above_200k_tokens katCoderProV1)
           DEFAULT_TIERED_THRESHOLD"
    by blast
  then show ?thesis
    using hyp
    by (simp add: katCoderProV1_fields usage_def calculateTieredCost_def
          DEFAULT_TIERED_THRESHOLD_def)
qed

text \<open>
  C1, evaluated on the source's own test of the second tier (50000 input, 10000 output
  and 5000 cache-read tokens against \<^verbatim>\<open>kat-coder-pro-v1\<close>). The tier chosen by the
  input count is the second one, and \<^verbatim>\<open>tieredResult.cacheReadCost\<close> is 5000 tokens
  at that tier's rate; the cache-read part of the returned total is 5000 tokens at the
  record's top-level rate, so the total is 0.0816 and not the 0.0819 the test expects.
\<close>

theorem tier_cache_read_rate_dropped_at_tier2:
  "spec_selectTier 50000 [katTier1, katTier2, katTier3] = katTier2
   \<and> cacheReadCost (calculateInputLengthTieredCost 50000 10000 5000
        (input_cost_per_token katCoderProV1) (output_cost_per_token katCoderProV1)
        (tiered_pricing katCoderProV1)) = 5000 * (18 / 100000000)
   \<and> part_cacheReadCost (costParts (usage 50000 10000 None (Some 5000)) katCoderProV1)
       = 5000 * (12 / 100000000)
   \<and> calculateCostFromPricing (usage 50000 10000 None (Some 5000)) katCoderProV1
       = 816 / 10000
   \<and> calculateCostFromPricing (usage 50000 10000 None (Some 5000)) katCoderProV1
       \<noteq> 819 / 10000"
proof -
  have sel: "spec_selectTier 50000 [katTier1, katTier2, katTier3] = katTier2"
    by (simp add: spec_selectTier_def inRange_def katTier1_def katTier2_def)
  have res:
    "calculateInputLengthTieredCost 50000 10000 5000
        (input_cost_per_token katCoderProV1) (output_cost_per_token katCoderProV1)
        (tiered_pricing katCoderProV1)
     = \<lparr>inputCost = 45 / 1000, outputCost = 36 / 1000, cacheReadCost = 9 / 10000\<rparr>"
  proof -
    have "calculateInputLengthTieredCost 50000 10000 5000
            (input_cost_per_token katCoderProV1) (output_cost_per_token katCoderProV1)
            (tiered_pricing katCoderProV1)
          = \<lparr>inputCost = 50000 * tier_input_cost_per_token katTier2,
             outputCost = 10000 * tier_output_cost_per_token katTier2,
             cacheReadCost = 5000 * orZero (tier_cache_read_input_token_cost katTier2)\<rparr>"
      by (simp add: katCoderProV1_fields tiered_result_nonempty sel)
    then show ?thesis
      by (simp add: orZero_def katTier2_def)
  qed
  have parts:
    "costParts (usage 50000 10000 None (Some 5000)) katCoderProV1
     = \<lparr>part_inputCost = 45 / 1000, part_outputCost = 36 / 1000,
        part_cacheCreationCost = 0, part_cacheReadCost = 6 / 10000\<rparr>"
    using res
    by (simp add: costParts_def hasTieredPricing_def usage_def katCoderProV1_fields Let_def
          calculateTieredCost_def DEFAULT_TIERED_THRESHOLD_def)
  show ?thesis
    by (simp add: sel res parts calculateCostFromPricing_def Let_def)
qed

lemma emptyTierList_fields:
  "tiered_pricing emptyTierList = Some []"
  "input_cost_per_token emptyTierList = Some (3 / 1000000)"
  "input_cost_per_token_above_200k_tokens emptyTierList = Some (6 / 1000000)"
  "output_cost_per_token emptyTierList = None"
  "output_cost_per_token_above_200k_tokens emptyTierList = None"
  "cache_creation_input_token_cost emptyTierList = None"
  "cache_creation_input_token_cost_above_200k_tokens emptyTierList = None"
  "cache_read_input_token_cost emptyTierList = None"
  "cache_read_input_token_cost_above_200k_tokens emptyTierList = None"
  by (simp_all add: emptyTierList_def emptyPricing_def)

text \<open>
  C2 as stated fails for an empty tier list: \<^verbatim>\<open>Array.isArray([])\<close> holds, so the
  record goes through \<^verbatim>\<open>calculateInputLengthTieredCost\<close>, whose branch for an empty
  list bills the input at the flat base rate. With a base rate of 3e-6, an
  above-200k rate of 6e-6 and 300000 input tokens the input is billed 0.9, where
  threshold-tiered mode bills 1.2.
\<close>

theorem empty_tier_list_not_threshold_tiered:
  "tiered_pricing emptyTierList = Some []
   \<and> part_inputCost (costParts (usage 300000 0 None None) emptyTierList) = 9 / 10
   \<and> part_inputCost (spec_thresholdMode (usage 300000 0 None None) emptyTierList) = 12 / 10
   \<and> calculateCostFromPricing (usage 300000 0 None None) emptyTierList = 9 / 10"
proof -
  have parts:
    "costParts (usage 300000 0 None None) emptyTierList
     = \<lparr>part_inputCost = 9 / 10, part_outputCost = 0,
        part_cacheCreationCost = 0, part_cacheReadCost = 0\<rparr>"
    by (simp add: costParts_def hasTieredPricing_def usage_def emptyTierList_fields Let_def
          calculateInputLengthTieredCost_def calculateTieredCost_def)
  have ref: "part_inputCost (spec_thresholdMode (usage 300000 0 None None) emptyTierList)
               = 12 / 10"
    by (simp add: spec_thresholdMode_def spec_tieredCost_def usage_def emptyTierList_fields)
  show ?thesis
    by (simp add: emptyTierList_fields parts ref calculateCostFromPricing_def Let_def)
qed

text \<open>
  C2 as amended. The range-tier path is taken exactly when \<^verbatim>\<open>tiered_pricing\<close> is
  present, an empty array included. For a record without a tier list, every token
  category is billed threshold-tiered, with its above-threshold rate when present.
  For a record with an empty tier list and a positive input count, cache creation and
  cache read are billed threshold-tiered and input and output at their flat base
  rates (0 when absent), no above-threshold rate applied. For a non-empty tier list
  and a positive input count, input and output are billed at the rates of the selected
  tier and cache creation threshold-tiered.
\<close>

theorem tier_list_dispatch:
  "(tiered_pricing pricing = None \<longrightarrow>
      costParts tokens pricing = spec_thresholdMode tokens pricing)
   \<and> (tiered_pricing pricing = Some [] \<and> 0 < input_tokens tokens \<longrightarrow>
        costParts tokens pricing =
          \<lparr>part_inputCost = input_tokens tokens * orZero (input_cost_per_token pricing),
           part_outputCost = output_tokens tokens * orZero (output_cost_per_token pricing),
           part_cacheCreationCost = part_cacheCreationCost (spec_thresholdMode tokens pricing),
           part_cacheReadCost = part_cacheReadCost (spec_thresholdMode tokens pricing)\<rparr>)
   \<and> (tiered_pricing pricing = Some tiers \<and> tiers \<noteq> [] \<and> 0 < input_tokens tokens \<longrightarrow>
        part_inputCost (costParts tokens pricing) =
          input_tokens tokens * tier_input_cost_per_token
            (spec_selectTier (input_tokens tokens) tiers)
        \<and> part_outputCost (costParts tokens pricing) =
          output_tokens tokens * tier_output_cost_per_token
            (spec_selectTier (input_tokens tokens) tiers)
        \<and> part_cacheCreationCost (costParts tokens pricing) =
          part_cacheCreationCost (spec_thresholdMode tokens pricing))"
proof (intro conjI impI)
  assume "tiered_pricing pricing = None"
  then show "costParts tokens pricing = spec_thresholdMode tokens pricing"
    by (rule costParts_absent)
next
  assume "tiered_pricing pricing = Some [] \<and> 0 < input_tokens tokens"
  then show "costParts tokens pricing =
          \<lparr>part_inputCost = input_tokens tokens * orZero (input_cost_per_token pricing),
           part_outputCost = output_tokens tokens * orZero (output_cost_per_token pricing),
           part_cacheCreationCost = part_cacheCreationCost (spec_thresholdMode tokens pricing),
           part_cacheReadCost = part_cacheReadCost (spec_thresholdMode tokens pricing)\<rparr>"
    by (simp add: costParts_present tiered_result_empty)
next
  assume h: "tiered_pricing pricing = Some tiers \<and> tiers \<noteq> [] \<and> 0 < input_tokens tokens"
  then show "part_inputCost (costParts tokens pricing) =
          input_tokens tokens * tier_input_cost_per_token
            (spec_selectTier (input_tokens tokens) tiers)"
    by (simp add: costParts_present tiered_result_nonempty)
  from h show "part_outputCost (costParts tokens pricing) =
          output_tokens tokens * tier_output_cost_per_token
            (spec_selectTier (input_tokens tokens) tiers)"
    by (simp add: costParts_present tiered_result_nonempty)
  from h show "part_cacheCreationCost (costParts tokens pricing) =
          part_cacheCreationCost (spec_thresholdMode tokens pricing)"
    by (simp add: costParts_present)
qed

theorem tier_list_dispatch_witness:
  "tiered_pricing claudeSonnet4 = None
   \<and> part_inputCost (costParts (usage 300000 0 None None) claudeSonnet4) = 12 / 10
   \<and> (tiered_pricing emptyTierList = Some [] \<and> 0 < input_tokens (usage 300000 7 None None))
   \<and> part_inputCost (costParts (usage 300000 7 None None) emptyTierList) = 9 / 10
   \<and> (tiered_pricing katCoderProV1 = Some [katTier1, katTier2, katTier3]
        \<and> [katTier1, katTier2, katTier3] \<noteq> []
        \<and> 0 < input_tokens (usage 128001 0 None None))
   \<and> part_inputCost (costParts (usage 128001 0 None None) katCoderProV1)
        = 128001 * (15 / 10000000)"
proof -
  have h1: "tiered_pricing claudeSonnet4 = None"
    by (simp add: claudeSonnet4_def emptyPricing_def)
  have h2: "tiered_pricing emptyTierList = Some [] \<and> 0 < input_tokens (usage 300000 7 None None)"
    by (simp add: emptyTierList_fields usage_def)
  have h3: "tiered_pricing katCoderProV1 = Some [katTier1, katTier2, katTier3]
        \<and> [katTier1, katTier2, katTier3] \<noteq> []
        \<and> 0 < input_tokens (usage 128001 0 None None)"
    by (simp add: katCoderProV1_fields usage_def)
  have sel: "spec_selectTier 128001 [katTier1, katTier2, katTier3] = katTier3"
    by (simp add: spec_selectTier_def inRange_def katTier1_def katTier2_def katTier3_def)
  from tier_list_dispatch [of claudeSonnet4 "usage 300000 0 None None"] h1
  have "costParts (usage 300000 0 None None) claudeSonnet4
          = spec_thresholdMode (usage 300000 0 None None) claudeSonnet4"
    by blast
  then have c1: "part_inputCost (costParts (usage 300000 0 None None) claudeSonnet4) = 12 / 10"
    by (simp add: spec_thresholdMode_def spec_tieredCost_def usage_def claudeSonnet4_def
          emptyPricing_def)
  from tier_list_dispatch [of emptyTierList "usage 300000 7 None None"] h2
  have "costParts (usage 300000 7 None None) emptyTierList =
          \<lparr>part_inputCost = input_tokens (usage 300000 7 None None)
               * orZero (input_cost_per_token emptyTierList),
           part_outputCost = output_tokens (usage 300000 7 None None)
               * orZero (output_cost_per_token emptyTierList),
           part_cacheCreationCost =
             part_cacheCreationCost (spec_thresholdMode (usage 300000 7 None None) emptyTierList),
           part_cacheReadCost =
             part_cacheReadCost (spec_thresholdMode (usage 300000 7 None None) emptyTierList)\<rparr>"
    by blast
  then have c2: "part_inputCost (costParts (usage 300000 7 None None) emptyTierList) = 9 / 10"
    by (simp add: usage_def emptyTierList_fields orZero_def)
  from tier_list_dispatch
         [of katCoderProV1 "usage 128001 0 None None" "[katTier1, katTier2, katTier3]"] h3
  have "part_inputCost (costParts (usage 128001 0 None None) katCoderProV1) =
          input_tokens (usage 128001 0 None None) * tier_input_cost_per_token
            (spec_selectTier (input_tokens (usage 128001 0 None None))
               [katTier1, katTier2, katTier3])"
    by blast
  then have "part_inputCost (costParts (usage 128001 0 None None) katCoderProV1)
        = 128001 * tier_input_cost_per_token katTier3"
    by (simp add: usage_def sel)
  then have c3: "part_inputCost (costParts (usage 128001 0 None None) katCoderProV1)
        = 128001 * (15 / 10000000)"
    by (simp add: katTier3_def)
  show ?thesis
    using h1 h2 h3 c1 c2 c3 by blast
qed

section \<open>Properties of the resolver\<close>

lemma stringIncludes_sublist: "stringIncludes s sub \<longleftrightarrow> sublist sub s"
  by (induction s) (auto simp: sublist_Cons_right)

lemma includes_append_left:
  assumes "stringIncludes k (m @ x)"
  shows "stringIncludes k m"
proof -
  from assms obtain ps ss where "k = ps @ (m @ x) @ ss"
    unfolding stringIncludes_sublist sublist_def by blast
  then have "k = ps @ m @ (x @ ss)" by simp
  then show ?thesis
    unfolding stringIncludes_sublist sublist_def by blast
qed

lemma endsWith_includes:
  assumes "endsWith k (x @ m)"
  shows "stringIncludes k m"
proof -
  from assms obtain ps where "k = ps @ x @ m"
    unfolding endsWith_def suffix_def by blast
  then have "k = (ps @ x) @ m @ []" by simp
  then show ?thesis
    unfolding stringIncludes_sublist sublist_def by blast
qed

lemma matchScore_spec: "matchScore m k = spec_score m k"
  using includes_append_left [of k m "''/''"] endsWith_includes [of k "''/''" m]
  by (auto simp: matchScore_def spec_score_def)

lemma suffixMatch_find:
  "suffixMatch m pricing = map_option snd (find (suffixHit m) pricing)"
  by (induction pricing) (auto simp: suffixHit_def Let_def)

lemma topOf_Nil: "topOf s [] = s"
  by (simp add: topOf_def)

lemma topOf_Cons: "topOf s (c # xs) = topOf (max c s) xs"
proof -
  have "Max (set (s # c # xs)) = fold max (c # xs) s"
    by (rule Max.set_eq_fold)
  moreover have "Max (set (max c s # xs)) = fold max xs (max c s)"
    by (rule Max.set_eq_fold)
  ultimately show ?thesis
    by (simp add: topOf_def)
qed

lemma topOf_ge: "s \<le> topOf s xs"
  by (simp add: topOf_def)

lemma fuzzyMatch_max:
  "fuzzyMatch m pricing (b, s) =
     (if topOf s (map (keyScore m) pricing) = s then (b, s)
      else (map_option snd
              (find (\<lambda>entry. keyScore m entry = topOf s (map (keyScore m) pricing)) pricing),
            topOf s (map (keyScore m) pricing)))"
proof (induction pricing arbitrary: b s)
  case Nil
  then show ?case by (simp add: topOf_Nil)
next
  case (Cons e rest)
  obtain key val where e: "e = (key, val)" by (cases e)
  define c where "c = keyScore m e"
  define t where "t = topOf s (map (keyScore m) (e # rest))"
  have sc: "matchScore m (toLowerCase key) = c"
    by (simp add: c_def keyScore_def matchScore_spec e)
  show ?case
  proof (cases "c > s")
    case True
    then have t: "t = topOf c (map (keyScore m) rest)"
      by (simp add: t_def topOf_Cons c_def max_def)
    have step: "fuzzyMatch m (e # rest) (b, s) = fuzzyMatch m rest (Some val, c)"
      using True by (simp add: e sc)
    have ge: "c \<le> t" unfolding t by (rule topOf_ge)
    with True have ne: "t \<noteq> s" by simp
    show ?thesis
    proof (cases "t = c")
      case True
      then have "fuzzyMatch m rest (Some val, c) = (Some val, c)"
        using Cons.IH [of "Some val" c] t by simp
      moreover have "find (\<lambda>entry. keyScore m entry = t) (e # rest) = Some e"
        using True by (simp add: c_def)
      ultimately show ?thesis
        using ne True unfolding step t_def [symmetric] by (simp add: e)
    next
      case False
      then have "fuzzyMatch m rest (Some val, c) =
                   (map_option snd (find (\<lambda>entry. keyScore m entry = t) rest), t)"
        using Cons.IH [of "Some val" c] t by simp
      moreover have "find (\<lambda>entry. keyScore m entry = t) (e # rest)
                       = find (\<lambda>entry. keyScore m entry = t) rest"
        using False by (simp add: c_def)
      ultimately show ?thesis
        using ne unfolding step t_def [symmetric] by simp
    qed
  next
    case False
    then have t: "t = topOf s (map (keyScore m) rest)"
      by (simp add: t_def topOf_Cons c_def max_def)
    have step: "fuzzyMatch m (e # rest) (b, s) = fuzzyMatch m rest (b, s)"
      using False by (simp add: e sc)
    show ?thesis
    proof (cases "t = s")
      case True
      then have "fuzzyMatch m rest (b, s) = (b, s)"
        using Cons.IH [of b s] t by simp
      then show ?thesis
        using True unfolding step t_def [symmetric] by simp
    next
      case ne: False
      then have "fuzzyMatch m rest (b, s) =
                   (map_option snd (find (\<lambda>entry. keyScore m entry = t) rest), t)"
        using Cons.IH [of b s] t by simp
      moreover have "s \<le> t" unfolding t by (rule topOf_ge)
      with ne False have "c \<noteq> t" by simp
      then have "find (\<lambda>entry. keyScore m entry = t) (e # rest)
                       = find (\<lambda>entry. keyScore m entry = t) rest"
        by (simp add: c_def)
      ultimately show ?thesis
        using ne unfolding step t_def [symmetric] by simp
    qed
  qed
qed

lemma fuzzyMatch_spec: "fst (fuzzyMatch m pricing (None, 0)) = spec_fuzzyBest m pricing"
  by (simp add: fuzzyMatch_max spec_fuzzyBest_def spec_maxScore_def topOf_def)

lemma find_top_Some:
  assumes "spec_maxScore m pricing \<noteq> 0"
  shows "\<exists>entry. find (\<lambda>entry. keyScore m entry = spec_maxScore m pricing) pricing = Some entry"
proof -
  have "spec_maxScore m pricing \<in> set (0 # map (keyScore m) pricing)"
    unfolding spec_maxScore_def by (rule Max_in) simp_all
  with assms obtain entry where "entry \<in> set pricing"
      and "keyScore m entry = spec_maxScore m pricing"
    by auto
  then have "find (\<lambda>entry. keyScore m entry = spec_maxScore m pricing) pricing \<noteq> None"
    unfolding find_None_iff by blast
  then show ?thesis by blast
qed

lemma spec_fuzzyBest_None: "spec_fuzzyBest m pricing = None \<longleftrightarrow> spec_maxScore m pricing = 0"
  using find_top_Some [of m pricing] by (auto simp: spec_fuzzyBest_def)

lemma getModelPricing_loaded:
  assumes "ensurePricingLoaded loaded fetcher = (Inr pricing, fetcher')"
  shows "getModelPricing loaded fetcher modelName =
           (Inr (resolvePricing (providerPrefixes fetcher') pricing modelName), fetcher')"
  using assms by (simp add: getModelPricing_def)

lemma resolvePricing_fuzzy:
  assumes "directMatch pricing (createMatchingCandidates pfx modelName) = None"
    and "suffixMatch (toLowerCase modelName) pricing = None"
  shows "resolvePricing pfx pricing modelName =
           spec_fuzzyBest (toLowerCase modelName) pricing"
  using assms by (simp add: resolvePricing_def Let_def fuzzyMatch_spec)

lemma resolvePricing_suffix:
  assumes "directMatch pricing (createMatchingCandidates pfx modelName) = None"
    and "find (suffixHit (toLowerCase modelName)) pricing = Some (key, val)"
  shows "resolvePricing pfx pricing modelName = Some val"
  using assms by (simp add: resolvePricing_def Let_def suffixMatch_find)

lemma ensurePricingLoaded_default:
  "ensurePricingLoaded (Some pricing) defaultFetcher =
     (Inr pricing, defaultFetcher\<lparr>cachedPricing := Some pricing\<rparr>)"
  by (simp add: ensurePricingLoaded_def defaultFetcher_def)

lemma providerPrefixes_default:
  "providerPrefixes (defaultFetcher\<lparr>cachedPricing := c\<rparr>) = DEFAULT_PROVIDER_PREFIXES"
  by (simp add: defaultFetcher_def)

text \<open>
  C4. In the fuzzy phase the score given to a lower-cased key \<open>k\<close> against the
  lower-cased query \<open>m\<close> is the specification's: 100, 95, 90, 50, 10 or 0. When the
  exact candidates and the suffix scan both miss, \<^verbatim>\<open>getModelPricing\<close> returns the
  record of the first key, in dataset order, whose score is the maximum over the
  dataset, and it returns not-found exactly when that maximum is 0.
\<close>

theorem fuzzy_phase_first_maximum:
  "matchScore m k = spec_score m k
   \<and> (ensurePricingLoaded loaded fetcher = (Inr pricing, fetcher')
        \<and> directMatch pricing
            (createMatchingCandidates (providerPrefixes fetcher') modelName) = None
        \<and> suffixMatch (toLowerCase modelName) pricing = None
      \<longrightarrow> getModelPricing loaded fetcher modelName =
            (Inr (spec_fuzzyBest (toLowerCase modelName) pricing), fetcher')
          \<and> (spec_fuzzyBest (toLowerCase modelName) pricing = None) =
              (spec_maxScore (toLowerCase modelName) pricing = 0))"
proof (intro conjI impI)
  show "matchScore m k = spec_score m k"
    by (rule matchScore_spec)
next
  assume h: "ensurePricingLoaded loaded fetcher = (Inr pricing, fetcher')
        \<and> directMatch pricing
            (createMatchingCandidates (providerPrefixes fetcher') modelName) = None
        \<and> suffixMatch (toLowerCase modelName) pricing = None"
  then show "getModelPricing loaded fetcher modelName =
            (Inr (spec_fuzzyBest (toLowerCase modelName) pricing), fetcher')"
    by (simp add: getModelPricing_loaded resolvePricing_fuzzy)
next
  show "(spec_fuzzyBest (toLowerCase modelName) pricing = None) =
          (spec_maxScore (toLowerCase modelName) pricing = 0)"
    by (rule spec_fuzzyBest_None)
qed

theorem fuzzy_phase_first_maximum_witness:
  "(ensurePricingLoaded (Some glmVariants) defaultFetcher =
        (Inr glmVariants, defaultFetcher\<lparr>cachedPricing := Some glmVariants\<rparr>)
      \<and> directMatch glmVariants
          (createMatchingCandidates
             (providerPrefixes (defaultFetcher\<lparr>cachedPricing := Some glmVariants\<rparr>))
             ''GLM-4.5'') = None
      \<and> suffixMatch (toLowerCase ''GLM-4.5'') glmVariants = None)
   \<and> map (keyScore (toLowerCase ''GLM-4.5'')) glmVariants = [10, 50, 95, 90, 95]
   \<and> getModelPricing (Some glmVariants) defaultFetcher ''GLM-4.5'' =
       (Inr (Some (tagged 3)), defaultFetcher\<lparr>cachedPricing := Some glmVariants\<rparr>)"
proof -
  have direct: "directMatch glmVariants
      (createMatchingCandidates DEFAULT_PROVIDER_PREFIXES ''GLM-4.5'') = None"
    by code_simp
  have suffix: "suffixMatch (toLowerCase ''GLM-4.5'') glmVariants = None"
    by code_simp
  have scores: "map (keyScore (toLowerCase ''GLM-4.5'')) glmVariants = [10, 50, 95, 90, 95]"
    by code_simp
  have best: "spec_fuzzyBest (toLowerCase ''GLM-4.5'') glmVariants = Some (tagged 3)"
    by code_simp
  have hyp: "ensurePricingLoaded (Some glmVariants) defaultFetcher =
        (Inr glmVariants, defaultFetcher\<lparr>cachedPricing := Some glmVariants\<rparr>)
      \<and> directMatch glmVariants
          (createMatchingCandidates
             (providerPrefixes (defaultFetcher\<lparr>cachedPricing := Some glmVariants\<rparr>))
             ''GLM-4.5'') = None
      \<and> suffixMatch (toLowerCase ''GLM-4.5'') glmVariants = None"
    using direct suffix
    by (simp only: ensurePricingLoaded_default providerPrefixes_default simp_thms)
  from fuzzy_phase_first_maximum
         [of _ _ "Some glmVariants" defaultFetcher glmVariants
             "defaultFetcher\<lparr>cachedPricing := Some glmVariants\<rparr>" "''GLM-4.5''"] hyp
  have "getModelPricing (Some glmVariants) defaultFetcher ''GLM-4.5'' =
          (Inr (spec_fuzzyBest (toLowerCase ''GLM-4.5'') glmVariants),
           defaultFetcher\<lparr>cachedPricing := Some glmVariants\<rparr>)"
    by blast
  then have "getModelPricing (Some glmVariants) defaultFetcher ''GLM-4.5'' =
       (Inr (Some (tagged 3)), defaultFetcher\<lparr>cachedPricing := Some glmVariants\<rparr>)"
    by (simp only: best)
  with hyp scores show ?thesis
    by blast
qed

text \<open>
  C7. When no exact candidate is a key of the dataset, \<^verbatim>\<open>getModelPricing\<close> returns
  the record of the first key, in dataset order, whose lower-cased form equals the
  lower-cased query or ends with \<open>/\<close> followed by it. A dataset holding only
  \<^verbatim>\<open>moonshot/kimi-for-coding\<close> resolves \<^verbatim>\<open>kimi-for-coding\<close> to that record in
  the suffix scan: the exact candidates miss and the suffix scan returns it.
\<close>

theorem suffix_phase_first_match:
  "(ensurePricingLoaded loaded fetcher = (Inr pricing, fetcher')
      \<and> directMatch pricing
          (createMatchingCandidates (providerPrefixes fetcher') modelName) = None
      \<and> find (suffixHit (toLowerCase modelName)) pricing = Some (key, val)
    \<longrightarrow> getModelPricing loaded fetcher modelName = (Inr (Some val), fetcher'))
   \<and> directMatch [(''moonshot/kimi-for-coding'', r)]
        (createMatchingCandidates DEFAULT_PROVIDER_PREFIXES ''kimi-for-coding'') = None
   \<and> suffixMatch (toLowerCase ''kimi-for-coding'') [(''moonshot/kimi-for-coding'', r)] = Some r
   \<and> resolvePricing DEFAULT_PROVIDER_PREFIXES [(''moonshot/kimi-for-coding'', r)]
        ''kimi-for-coding'' = Some r"
proof (intro conjI impI)
  assume "ensurePricingLoaded loaded fetcher = (Inr pricing, fetcher')
      \<and> directMatch pricing
          (createMatchingCandidates (providerPrefixes fetcher') modelName) = None
      \<and> find (suffixHit (toLowerCase modelName)) pricing = Some (key, val)"
  then show "getModelPricing loaded fetcher modelName = (Inr (Some val), fetcher')"
    by (simp add: getModelPricing_loaded resolvePricing_suffix)
next
  have cands: "createMatchingCandidates DEFAULT_PROVIDER_PREFIXES ''kimi-for-coding'' =
      [''kimi-for-coding'', ''anthropic/kimi-for-coding'', ''claude-3-5-kimi-for-coding'',
       ''claude-3-kimi-for-coding'', ''claude-kimi-for-coding'', ''openai/kimi-for-coding'',
       ''azure/kimi-for-coding'', ''openrouter/openai/kimi-for-coding'',
       ''zai/kimi-for-coding'', ''streamlake/kimi-for-coding'']"
    by code_simp
  show direct: "directMatch [(''moonshot/kimi-for-coding'', r)]
        (createMatchingCandidates DEFAULT_PROVIDER_PREFIXES ''kimi-for-coding'') = None"
    unfolding cands by simp
  have lower: "toLowerCase ''kimi-for-coding'' = ''kimi-for-coding''"
    "toLowerCase ''moonshot/kimi-for-coding'' = ''moonshot/kimi-for-coding''"
    by code_simp+
  have ends: "endsWith ''moonshot/kimi-for-coding'' (''/'' @ ''kimi-for-coding'')"
    by code_simp
  show suffix: "suffixMatch (toLowerCase ''kimi-for-coding'')
        [(''moonshot/kimi-for-coding'', r)] = Some r"
    using ends by (simp add: lower)
  show "resolvePricing DEFAULT_PROVIDER_PREFIXES [(''moonshot/kimi-for-coding'', r)]
        ''kimi-for-coding'' = Some r"
    by (simp add: resolvePricing_def direct suffix Let_def del: suffixMatch.simps)
qed

theorem suffix_phase_first_match_witness:
  "(ensurePricingLoaded (Some kimiKeys) defaultFetcher =
        (Inr kimiKeys, defaultFetcher\<lparr>cachedPricing := Some kimiKeys\<rparr>)
      \<and> directMatch kimiKeys
          (createMatchingCandidates
             (providerPrefixes (defaultFetcher\<lparr>cachedPricing := Some kimiKeys\<rparr>))
             ''KIMI-for-coding'') = None
      \<and> find (suffixHit (toLowerCase ''KIMI-for-coding'')) kimiKeys
          = Some (''Moonshot/Kimi-For-Coding'', tagged 1))
   \<and> getModelPricing (Some kimiKeys) defaultFetcher ''KIMI-for-coding'' =
       (Inr (Some (tagged 1)), defaultFetcher\<lparr>cachedPricing := Some kimiKeys\<rparr>)"
proof -
  have direct: "directMatch kimiKeys
      (createMatchingCandidates DEFAULT_PROVIDER_PREFIXES ''KIMI-for-coding'') = None"
    by code_simp
  have hit: "find (suffixHit (toLowerCase ''KIMI-for-coding'')) kimiKeys
          = Some (''Moonshot/Kimi-For-Coding'', tagged 1)"
    by code_simp
  have hyp: "ensurePricingLoaded (Some kimiKeys) defaultFetcher =
        (Inr kimiKeys, defaultFetcher\<lparr>cachedPricing := Some kimiKeys\<rparr>)
      \<and> directMatch kimiKeys
          (createMatchingCandidates
             (providerPrefixes (defaultFetcher\<lparr>cachedPricing := Some kimiKeys\<rparr>))
             ''KIMI-for-coding'') = None
      \<and> find (suffixHit (toLowerCase ''KIMI-for-coding'')) kimiKeys
          = Some (''Moonshot/Kimi-For-Coding'', tagged 1)"
    using direct hit
    by (simp only: ensurePricingLoaded_default providerPrefixes_default simp_thms)
  from suffix_phase_first_match
         [of "Some kimiKeys" defaultFetcher kimiKeys
             "defaultFetcher\<lparr>cachedPricing := Some kimiKeys\<rparr>" "''KIMI-for-coding''"
             "''Moonshot/Kimi-For-Coding''" "tagged 1"] hyp
  have "getModelPricing (Some kimiKeys) defaultFetcher ''KIMI-for-coding'' =
       (Inr (Some (tagged 1)), defaultFetcher\<lparr>cachedPricing := Some kimiKeys\<rparr>)"
    by blast
  with hyp show ?thesis
    by blast
qed

section \<open>Properties of the engine\<close>

text \<open>
  C5 as stated fails for the empty identifier: \<^verbatim>\<open>calculateCostFromTokens\<close> returns
  the success 0 for \<^verbatim>\<open>modelName === ''\<close> before any lookup. Against an empty
  dataset the resolver finds no record for \<^verbatim>\<open>''\<close>, and the result is still a
  successful zero cost.
\<close>

theorem empty_model_name_succeeds_with_zero:
  "resolvePricing DEFAULT_PROVIDER_PREFIXES [] '''' = None
   \<and> getModelPricing (Some []) defaultFetcher '''' =
       (Inr None, defaultFetcher\<lparr>cachedPricing := Some []\<rparr>)
   \<and> calculateCostFromTokens (Some []) defaultFetcher (usage 1000 500 None None) (Some '''') =
       (Inr 0, defaultFetcher)"
proof -
  have none: "resolvePricing DEFAULT_PROVIDER_PREFIXES [] '''' = None"
    by code_simp
  have "getModelPricing (Some []) defaultFetcher '''' =
       (Inr None, defaultFetcher\<lparr>cachedPricing := Some []\<rparr>)"
    by (simp only: getModelPricing_loaded [OF ensurePricingLoaded_default]
          providerPrefixes_default none)
  with none show ?thesis
    by (simp add: calculateCostFromTokens_def)
qed

text \<open>
  C5 as amended. For every dataset and every non-empty model identifier for which the
  resolver finds no record, \<^verbatim>\<open>calculateCostFromTokens\<close> returns the not-found
  error, which is not a successful zero cost. For an absent or empty identifier it
  returns the success 0 without a lookup.
\<close>

theorem unresolved_model_is_not_found_error:
  "(modelName \<noteq> ''''
      \<and> ensurePricingLoaded loaded fetcher = (Inr pricing, fetcher')
      \<and> resolvePricing (providerPrefixes fetcher') pricing modelName = None
    \<longrightarrow> calculateCostFromTokens loaded fetcher tokens (Some modelName) =
          (Inl (PricingNotFound modelName), fetcher'))
   \<and> (Inl (PricingNotFound modelName) :: error + number) \<noteq> Inr 0
   \<and> calculateCostFromTokens loaded fetcher tokens None = (Inr 0, fetcher)
   \<and> calculateCostFromTokens loaded fetcher tokens (Some '''') = (Inr 0, fetcher)"
proof (intro conjI impI)
  assume "modelName \<noteq> ''''
      \<and> ensurePricingLoaded loaded fetcher = (Inr pricing, fetcher')
      \<and> resolvePricing (providerPrefixes fetcher') pricing modelName = None"
  then show "calculateCostFromTokens loaded fetcher tokens (Some modelName) =
          (Inl (PricingNotFound modelName), fetcher')"
    by (simp add: calculateCostFromTokens_def getModelPricing_loaded)
next
  show "(Inl (PricingNotFound modelName) :: error + number) \<noteq> Inr 0"
    by simp
next
  show "calculateCostFromTokens loaded fetcher tokens None = (Inr 0, fetcher)"
    by (simp add: calculateCostFromTokens_def)
next
  show "calculateCostFromTokens loaded fetcher tokens (Some '''') = (Inr 0, fetcher)"
    by (simp add: calculateCostFromTokens_def)
qed

theorem unresolved_model_is_not_found_error_witness:
  "(''totally-unknown-model-xyz'' \<noteq> ''''
      \<and> ensurePricingLoaded (Some gpt5Only) defaultFetcher =
          (Inr gpt5Only, defaultFetcher\<lparr>cachedPricing := Some gpt5Only\<rparr>)
      \<and> resolvePricing (providerPrefixes (defaultFetcher\<lparr>cachedPricing := Some gpt5Only\<rparr>))
          gpt5Only ''totally-unknown-model-xyz'' = None)
   \<and> calculateCostFromTokens (Some gpt5Only) defaultFetcher (usage 1000 500 None None)
        (Some ''totally-unknown-model-xyz'') =
       (Inl (PricingNotFound ''totally-unknown-model-xyz''),
        defaultFetcher\<lparr>cachedPricing := Some gpt5Only\<rparr>)"
proof -
  have none: "resolvePricing DEFAULT_PROVIDER_PREFIXES gpt5Only ''totally-unknown-model-xyz''
      = None"
    by code_simp
  have hyp: "''totally-unknown-model-xyz'' \<noteq> ''''
      \<and> ensurePricingLoaded (Some gpt5Only) defaultFetcher =
          (Inr gpt5Only, defaultFetcher\<lparr>cachedPricing := Some gpt5Only\<rparr>)
      \<and> resolvePricing (providerPrefixes (defaultFetcher\<lparr>cachedPricing := Some gpt5Only\<rparr>))
          gpt5Only ''totally-unknown-model-xyz'' = None"
    using none
    by (simp add: ensurePricingLoaded_default providerPrefixes_default)
  from unresolved_model_is_not_found_error
         [of "''totally-unknown-model-xyz''" "Some gpt5Only" defaultFetcher gpt5Only
             "defaultFetcher\<lparr>cachedPricing := Some gpt5Only\<rparr>" "usage 1000 500 None None"] hyp
  have "calculateCostFromTokens (Some gpt5Only) defaultFetcher (usage 1000 500 None None)
        (Some ''totally-unknown-model-xyz'') =
       (Inl (PricingNotFound ''totally-unknown-model-xyz''),
        defaultFetcher\<lparr>cachedPricing := Some gpt5Only\<rparr>)"
    by blast
  with hyp show ?thesis
    by blast
qed

section \<open>Properties of the dataset loader\<close>

lemma update_fresh_key:
  assumes "k \<notin> fst ` set al"
  shows "AList.update k v al = al @ [(k, v)]"
  using assms by (induction al) auto

lemma collectEntries_keeps:
  assumes "distinct (map fst entries)"
    and "fst ` set entries \<inter> fst ` set acc = {}"
  shows "collectEntries entries acc = acc @ List.map_filter spec_keepEntry entries"
  using assms
proof (induction entries arbitrary: acc)
  case Nil
  then show ?case by (simp add: map_filter_simps)
next
  case (Cons entry rest)
  obtain modelName modelData where entry: "entry = (modelName, modelData)"
    by (cases entry)
  from Cons.prems have distinct_rest: "distinct (map fst rest)"
    and fresh_rest: "modelName \<notin> fst ` set rest"
    and fresh_acc: "modelName \<notin> fst ` set acc"
    and disjoint: "fst ` set rest \<inter> fst ` set acc = {}"
    by (auto simp: entry)
  show ?case
  proof (cases "spec_keepEntry entry")
    case None
    then have "collectEntries (entry # rest) acc = collectEntries rest acc"
      by (auto simp: entry spec_keepEntry_def split: if_splits)
    with None Cons.IH [OF distinct_rest disjoint] show ?thesis
      by (simp add: map_filter_simps)
  next
    case (Some kept)
    then obtain parsed where ok: "isObjectType modelData" "safeParse modelData = Some parsed"
      and kept: "kept = (modelName, parsed)"
      by (auto simp: entry spec_keepEntry_def split: if_splits)
    have acc': "AList.update modelName parsed acc = acc @ [(modelName, parsed)]"
      using fresh_acc by (rule update_fresh_key)
    have "fst ` set rest \<inter> fst ` set (acc @ [(modelName, parsed)]) = {}"
      using disjoint fresh_rest by auto
    from Cons.IH [OF distinct_rest this]
    have "collectEntries rest (acc @ [(modelName, parsed)]) =
            (acc @ [(modelName, parsed)]) @ List.map_filter spec_keepEntry rest" .
    moreover have "collectEntries (entry # rest) acc =
                     collectEntries rest (acc @ [(modelName, parsed)])"
      using ok by (simp add: entry acc')
    ultimately show ?thesis
      using Some by (simp add: map_filter_simps kept)
  qed
qed

lemma loadBody_entries:
  assumes "readFirst readFileSync possiblePaths = Some rawData"
    and "trim rawData \<noteq> ''''"
    and "JSON_parse rawData = Some jsonDataset"
    and "Object_entries jsonDataset = Some entries"
    and "distinct (map fst entries)"
  shows "loadBody readFileSync JSON_parse possiblePaths =
           Inr (List.map_filter spec_keepEntry entries)"
  using assms collectEntries_keeps [of entries "[]"]
  by (simp add: loadBody_def createPricingDataset_def)

text \<open>
  C8. The loader returns a dataset whatever the source is. Every failure of the body
  (no readable file, a blank file, a parse error, a \<^verbatim>\<open>null\<close> document) is caught
  and gives the empty dataset. When the source is read and parsed, the dataset is the
  list of the entries whose value is an object that passes validation, each with its
  validated record, in the order of the source; every other entry is skipped. The
  sample source (one well-formed entry, one entry with a string and a boolean where
  numbers are expected, one entry that is not an object) gives exactly the well-formed
  entry.
\<close>

theorem loader_skips_invalid_and_never_fails:
  "(loadBody readFileSync JSON_parse possiblePaths = Inl failure \<longrightarrow>
      loadLocalPricingDataset readFileSync JSON_parse possiblePaths = [])
   \<and> (readFirst readFileSync possiblePaths = None \<longrightarrow>
        loadLocalPricingDataset readFileSync JSON_parse possiblePaths = [])
   \<and> (readFirst readFileSync possiblePaths = Some rawData
        \<and> (trim rawData = '''' \<or> JSON_parse rawData = None
            \<or> JSON_parse rawData = Some JNull) \<longrightarrow>
        loadLocalPricingDataset readFileSync JSON_parse possiblePaths = [])
   \<and> (readFirst readFileSync possiblePaths = Some rawData
        \<and> trim rawData \<noteq> ''''
        \<and> JSON_parse rawData = Some jsonDataset
        \<and> Object_entries jsonDataset = Some entries
        \<and> distinct (map fst entries) \<longrightarrow>
        loadLocalPricingDataset readFileSync JSON_parse possiblePaths =
          List.map_filter spec_keepEntry entries)
   \<and> loadLocalPricingDataset sampleFiles sampleParse samplePaths =
       [(''good-model'', goodModel)]"
proof (intro conjI impI)
  assume "loadBody readFileSync JSON_parse possiblePaths = Inl failure"
  then show "loadLocalPricingDataset readFileSync JSON_parse possiblePaths = []"
    by (simp add: loadLocalPricingDataset_def createPricingDataset_def)
next
  assume "readFirst readFileSync possiblePaths = None"
  then show "loadLocalPricingDataset readFileSync JSON_parse possiblePaths = []"
    by (simp add: loadLocalPricingDataset_def loadBody_def createPricingDataset_def)
next
  assume "readFirst readFileSync possiblePaths = Some rawData
        \<and> (trim rawData = '''' \<or> JSON_parse rawData = None
            \<or> JSON_parse rawData = Some JNull)"
  then show "loadLocalPricingDataset readFileSync JSON_parse possiblePaths = []"
    by (auto simp: loadLocalPricingDataset_def loadBody_def createPricingDataset_def
          Object_entries_def)
next
  assume "readFirst readFileSync possiblePaths = Some rawData
        \<and> trim rawData \<noteq> ''''
        \<and> JSON_parse rawData = Some jsonDataset
        \<and> Object_entries jsonDataset = Some entries
        \<and> distinct (map fst entries)"
  then have "loadBody readFileSync JSON_parse possiblePaths =
               Inr (List.map_filter spec_keepEntry entries)"
    by (simp add: loadBody_entries)
  then show "loadLocalPricingDataset readFileSync JSON_parse possiblePaths =
          List.map_filter spec_keepEntry entries"
    by (simp add: loadLocalPricingDataset_def)
next
  show "loadLocalPricingDataset sampleFiles sampleParse samplePaths =
       [(''good-model'', goodModel)]"
    by code_simp
qed

theorem loader_skips_invalid_and_never_fails_witness:
  "(readFirst sampleFiles samplePaths = Some ''pricing source''
      \<and> trim ''pricing source'' \<noteq> ''''
      \<and> sampleParse ''pricing source'' = Some sampleSource
      \<and> Object_entries sampleSource =
          Some [(''good-model'',
                   JObject [(''input_cost_per_token'', JNumber (1 / 1000000)),
                            (''output_cost_per_token'', JNumber (2 / 1000000)),
                            (''litellm_provider'', JString ''openai'')]),
                (''bad-model'',
                   JObject [(''input_cost_per_token'', JString ''free''),
                            (''output_cost_per_token'', JBool True)]),
                (''comment'', JString ''not a record'')]
      \<and> distinct [''good-model'', ''bad-model'', ''comment''])
   \<and> loadLocalPricingDataset sampleFiles sampleParse samplePaths =
       [(''good-model'', goodModel)]
   \<and> readFirst (\<lambda>path. None) samplePaths = None
   \<and> loadLocalPricingDataset (\<lambda>path. None) sampleParse samplePaths = []
   \<and> (readFirst sampleFiles samplePaths = Some ''pricing source''
        \<and> (\<lambda>rawData. None :: json option) ''pricing source'' = None)
   \<and> loadLocalPricingDataset sampleFiles (\<lambda>rawData. None) samplePaths = []
   \<and> loadBody sampleFiles (\<lambda>rawData. None) samplePaths = Inl JsonSyntaxError"
proof -
  let ?entries =
    "[(''good-model'',
         JObject [(''input_cost_per_token'', JNumber (1 / 1000000)),
                  (''output_cost_per_token'', JNumber (2 / 1000000)),
                  (''litellm_provider'', JString ''openai'')]),
      (''bad-model'',
         JObject [(''input_cost_per_token'', JString ''free''),
                  (''output_cost_per_token'', JBool True)]),
      (''comment'', JString ''not a record'')]"
  have read: "readFirst sampleFiles samplePaths = Some ''pricing source''"
    by code_simp
  have nonblank: "trim ''pricing source'' \<noteq> ''''"
    by code_simp
  have parsed: "sampleParse ''pricing source'' = Some sampleSource"
    by (simp add: sampleParse_def)
  have entries: "Object_entries sampleSource = Some ?entries"
    by (simp add: Object_entries_def sampleSource_def)
  have keys: "distinct [''good-model'', ''bad-model'', ''comment'']"
    by simp
  have kept: "List.map_filter spec_keepEntry ?entries = [(''good-model'', goodModel)]"
    by code_simp
  have noread: "readFirst (\<lambda>path. None) samplePaths = None"
    by (simp add: samplePaths_def)
  have body: "loadBody sampleFiles (\<lambda>rawData. None) samplePaths = Inl JsonSyntaxError"
    using read nonblank by (simp add: loadBody_def)
  from loader_skips_invalid_and_never_fails
         [of sampleFiles sampleParse samplePaths _ "''pricing source''" sampleSource ?entries]
       read nonblank parsed entries keys
  have ok: "loadLocalPricingDataset sampleFiles sampleParse samplePaths =
              List.map_filter spec_keepEntry ?entries"
    by simp
  from loader_skips_invalid_and_never_fails [of "\<lambda>path. None" sampleParse samplePaths] noread
  have unread: "loadLocalPricingDataset (\<lambda>path. None) sampleParse samplePaths = []"
    by blast
  from loader_skips_invalid_and_never_fails
         [of sampleFiles "\<lambda>rawData. None" samplePaths JsonSyntaxError "''pricing source''"]
       read
  have unparsed: "loadLocalPricingDataset sampleFiles (\<lambda>rawData. None) samplePaths = []"
    by simp
  show ?thesis
    using read nonblank parsed entries ok kept noread unread unparsed body
    by simp
qed

section \<open>Properties of overlapping calls\<close>










end
